theory Spec2Isabelle
  imports Main "HOL-Library.Product_Lexorder"
begin

section \<open>Python values used by \<open>aw_datastore/datastore.py\<close>\<close>

text \<open>
  Exceptions are values. \<open>KeyError\<close>, \<open>TypeError\<close> and \<open>AssertionError\<close> are raised by
  the facade itself (lines 31, 98 and 89); \<open>ValueError\<close> and \<open>OverflowError\<close> are what
  \<open>datetime.replace\<close> and \<open>datetime + timedelta\<close> raise on a value out of range;
  \<open>AttributeError\<close> is what reading \<open>.timestamp\<close> of an object without that attribute
  raises (\<open>KeyError\<close> and \<open>TypeError\<close> are also what \<open>k['timestamp']\<close> and \<open><\<close> raise);
  \<open>StorageFailure\<close> stands for whatever the storage strategy raises.
\<close>

datatype error =
    KeyError
  | TypeError
  | AssertionError
  | ValueError
  | OverflowError
  | AttributeError
  | StorageFailure string

subsection \<open>\<open>datetime\<close>\<close>

text \<open>
  A \<open>datetime\<close> is held the way \<open>datetime.__add__\<close> computes with it: the day as its
  proleptic Gregorian ordinal (\<open>toordinal()\<close>: day 1 is 0001-01-01, day 3652059 is
  9999-12-31, the last day a \<open>datetime\<close> can hold), then hour, minute, second and
  microsecond. All datetimes of one run carry the same \<open>tzinfo\<close> (events are kept in
  UTC); \<open>replace\<close> and \<open>+\<close> leave it alone, so it is not a field here.
\<close>

record datetime =
  ordinal :: nat
  hour :: nat
  minute :: nat
  second :: nat
  microsecond :: nat

definition MAXORDINAL :: nat where
  "MAXORDINAL = 3652059"

definition valid_datetime :: "datetime \<Rightarrow> bool" where
  "valid_datetime dt \<longleftrightarrow>
     1 \<le> ordinal dt \<and> ordinal dt \<le> MAXORDINAL \<and> hour dt < 24 \<and> minute dt < 60 \<and>
     second dt < 60 \<and> microsecond dt < 1000000"

text \<open>
  Python compares two datetimes field by field, the most significant first: the
  lexicographic order of these tuples.
\<close>

definition dt_key :: "datetime \<Rightarrow> nat \<times> nat \<times> nat \<times> nat \<times> nat" where
  "dt_key dt = (ordinal dt, hour dt, minute dt, second dt, microsecond dt)"

text \<open>The instant as a count of whole seconds, and of microseconds.\<close>

definition to_seconds :: "datetime \<Rightarrow> nat" where
  "to_seconds dt = ordinal dt * 86400 + hour dt * 3600 + minute dt * 60 + second dt"

definition to_microseconds :: "datetime \<Rightarrow> nat" where
  "to_microseconds dt = to_seconds dt * 1000000 + microsecond dt"

text \<open>
  \<open>dt.replace(microsecond=v)\<close>: a \<open>ValueError\<close> when \<open>v\<close> is not in \<open>0..999999\<close>.
\<close>

definition replace_microsecond :: "datetime \<Rightarrow> nat \<Rightarrow> error + datetime" where
  "replace_microsecond dt v =
     (if v \<le> 999999 then Inr (dt\<lparr>microsecond := v\<rparr>) else Inl ValueError)"

text \<open>
  \<open>dt + timedelta(seconds=n)\<close>, as \<open>datetime.__add__\<close> does it: the time of day and
  \<open>n\<close> are summed in seconds, whole days are carried into the ordinal, and a result
  whose ordinal is not in \<open>1..MAXORDINAL\<close> is an \<open>OverflowError\<close>.
\<close>

definition add_seconds :: "datetime \<Rightarrow> nat \<Rightarrow> error + datetime" where
  "add_seconds dt n =
     (let secs = hour dt * 3600 + minute dt * 60 + second dt + n;
          days = ordinal dt + secs div 86400;
          rem = secs mod 86400
      in if 0 < days \<and> days \<le> MAXORDINAL
         then Inr (dt\<lparr>ordinal := days, hour := rem div 3600,
                      minute := rem mod 3600 div 60, second := rem mod 60\<rparr>)
         else Inl OverflowError)"

subsection \<open>Events and bucket metadata\<close>

text \<open>
  Modelled from the spec: the class \<open>Event\<close> of \<open>aw_core.models\<close> is imported by the
  module and is not part of it. Section 3 of the specification gives its fields.
\<close>

record event =
  event_id :: "int option"
  timestamp :: datetime
  duration :: nat
  data :: "(string \<times> string) list"

text \<open>
  Modelled from the spec: an \<open>Event\<close> always carries its fields, so the truth value
  Python gives it (\<open>assert inserted\<close>, \<open>if last_event and oldest_event\<close>) is true.
\<close>

definition truthy :: "event \<Rightarrow> bool" where
  "truthy e = True"

text \<open>
  \<open>created.isoformat()\<close>: the ISO-8601 text of a datetime. The text determines the
  datetime, so it is kept as the datetime it was made from.
\<close>

datatype iso8601 = Isoformat datetime

record metadata =
  md_id :: string
  md_type :: string
  md_client :: string
  md_hostname :: string
  md_created :: iso8601
  md_name :: "string option"

subsection \<open>Other Python objects\<close>

text \<open>
  Python does not check the annotation \<open>Union[Event, List[Event]]\<close> of \<open>insert\<close>: the
  caller may pass any object, and a list may hold any objects. The objects of this
  development, besides events: \<open>None\<close>, integers, strings, tuples of events, and dicts
  with string keys that hold \<open>None\<close>, an integer or a datetime under each key (a dict
  is the list of its items). None of them is an \<open>Event\<close> or a \<open>list\<close>.
\<close>

datatype py_scalar = Scalar_none | Scalar_int int | Scalar_datetime datetime

datatype py_other =
    PyNone
  | PyInt int
  | PyStr string
  | PyTuple "event list"
  | PyDict "(string \<times> py_scalar) list"

text \<open>
  An element of a list that is not an \<open>Event\<close> is one of these objects or a list (of
  events) itself; an element of a list is an \<open>Event\<close> or not.
\<close>

datatype py_nonevent = Not_event py_other | Nested_list "event list"

datatype py_item = Item_event event | Item_nonevent py_nonevent

section \<open>The storage strategy\<close>

text \<open>
  The storage strategy is the external collaborator of section 6 of the specification.
  It is a parameter of every operation: a record of functions over a storage state
  \<open>'s\<close>. \<open>create_bucket\<close> and \<open>delete_bucket\<close> may raise (the error is returned
  beside the state they leave); the queries and the inserts return.
  \<open>st_insert_many_items\<close> is the method \<open>insert_many\<close> again, called with a list that
  holds an element which is not an \<open>Event\<close>: section 6 does not say what the storage
  strategy does with such a list, so it may return anything or raise.
\<close>

record 's storage_strategy =
  st_buckets :: "'s \<Rightarrow> string \<rightharpoonup> metadata"
  st_create_bucket ::
    "'s \<Rightarrow> string \<Rightarrow> string \<Rightarrow> string \<Rightarrow> string \<Rightarrow> iso8601 \<Rightarrow> string option
       \<Rightarrow> error option \<times> 's"
  st_delete_bucket :: "'s \<Rightarrow> string \<Rightarrow> error option \<times> 's"
  st_get_events :: "'s \<Rightarrow> string \<Rightarrow> int \<Rightarrow> datetime option \<Rightarrow> datetime option \<Rightarrow> event list"
  st_insert_one :: "'s \<Rightarrow> string \<Rightarrow> event \<Rightarrow> event \<times> 's"
  st_insert_many :: "'s \<Rightarrow> string \<Rightarrow> event list \<Rightarrow> event list \<times> 's"
  st_insert_many_items :: "'s \<Rightarrow> string \<Rightarrow> py_item list \<Rightarrow> (error + py_item list) \<times> 's"

text \<open>
  What a call of the facade does besides returning: the records it logs and the calls
  it makes on the storage strategy, in program order.
\<close>

datatype log_record =
    Info_creating_bucket string
  | Info_deleting_bucket string
  | Error_cannot_create_bucket_object string
  | Warning_older_timestamp event event

datatype storage_call =
    Buckets
  | Create_bucket string string string string iso8601 "string option"
  | Delete_bucket string
  | Get_events string int "datetime option" "datetime option"
  | Insert_one string event
  | Insert_many string "event list"
  | Insert_many_items string "py_item list"

datatype effect = Log log_record | Call storage_call

section \<open>Handles and the datastore\<close>

text \<open>
  A \<open>Bucket\<close> is a handle: the id of its bucket, and the reference that tells one
  Python object from another (two handles of one bucket are different objects).
  The \<open>Datastore\<close> holds the cache of handles, the state of its storage strategy, and
  the next free object reference.
\<close>

record bucket =
  ref :: nat
  bucket_id :: string

record 's datastore =
  bucket_instances :: "string \<rightharpoonup> bucket"
  storage :: 's
  next_ref :: nat

section \<open>\<open>Bucket.get\<close>\<close>

text \<open>
  Lines 64-65. \<open>starttime.microsecond / 1000\<close> divides an integer below \<open>10^6\<close> by
  1000 in floating point; the quotient is off the exact one by far less than
  \<open>1/1000\<close>, the least distance of an exact quotient from the next integer above, so
  \<open>int\<close> cuts it to \<open>microsecond div 1000\<close>.
\<close>

definition round_starttime :: "datetime option \<Rightarrow> error + datetime option" where
  "round_starttime starttime =
     (case starttime of
        None \<Rightarrow> Inr None
      | Some t \<Rightarrow>
          (case replace_microsecond t (1000 * (microsecond t div 1000)) of
             Inl e \<Rightarrow> Inl e
           | Inr t' \<Rightarrow> Inr (Some t')))"

text \<open>
  Lines 66-71. \<open>int(endtime.microsecond / 1000 + 1)\<close> is \<open>microsecond div 1000 + 1\<close>
  for the same reason. A \<open>datetime\<close> is always true, so \<open>if starttime:\<close> and
  \<open>if endtime:\<close> ask whether the argument is \<open>None\<close>.
\<close>

definition round_endtime :: "datetime option \<Rightarrow> error + datetime option" where
  "round_endtime endtime =
     (case endtime of
        None \<Rightarrow> Inr None
      | Some t \<Rightarrow>
          (let microseconds = 1000 * (microsecond t div 1000 + 1) in
           if microseconds > 999999
           then (case replace_microsecond t 0 of
                   Inl e \<Rightarrow> Inl e
                 | Inr t0 \<Rightarrow>
                     (case add_seconds t0 1 of
                        Inl e \<Rightarrow> Inl e
                      | Inr t' \<Rightarrow> Inr (Some t')))
           else (case replace_microsecond t microseconds of
                   Inl e \<Rightarrow> Inl e
                 | Inr t' \<Rightarrow> Inr (Some t'))))"

definition Bucket_get ::
  "'s storage_strategy \<Rightarrow> 's datastore \<Rightarrow> bucket \<Rightarrow> int \<Rightarrow> datetime option \<Rightarrow> datetime option
     \<Rightarrow> (error + event list) \<times> effect list" where
  "Bucket_get st ds b limit starttime endtime =
     (case round_starttime starttime of
        Inl e \<Rightarrow> (Inl e, [])
      | Inr starttime' \<Rightarrow>
          (case round_endtime endtime of
             Inl e \<Rightarrow> (Inl e, [])
           | Inr endtime' \<Rightarrow>
               (Inr (st_get_events st (storage ds) (bucket_id b) limit starttime' endtime'),
                [Call (Get_events (bucket_id b) limit starttime' endtime')])))"

section \<open>\<open>Datastore\<close>\<close>

text \<open>
  \<open>Datastore.__init__\<close>: an empty cache, and the storage strategy just instantiated
  (its state \<open>s0\<close> may already hold buckets when the backend is persistent).
\<close>

definition Datastore_init :: "'s \<Rightarrow> 's datastore" where
  "Datastore_init s0 = \<lparr>bucket_instances = Map.empty, storage = s0, next_ref = 0\<rparr>"

text \<open>Lines 47-48.\<close>

definition Datastore_buckets ::
  "'s storage_strategy \<Rightarrow> 's datastore \<Rightarrow> (string \<rightharpoonup> metadata) \<times> effect list" where
  "Datastore_buckets st ds = (st_buckets st (storage ds), [Call Buckets])"

text \<open>
  Lines 22-33, \<open>Datastore.__getitem__\<close>. \<open>bucket_id in self.buckets()\<close> asks whether the
  listing has the key. \<open>Bucket(self, bucket_id)\<close> makes a new object, which takes the
  next free reference.
\<close>

definition Datastore_getitem ::
  "'s storage_strategy \<Rightarrow> 's datastore \<Rightarrow> string
     \<Rightarrow> (error + bucket) \<times> 's datastore \<times> effect list" where
  "Datastore_getitem st ds bid =
     (case bucket_instances ds bid of
        Some b \<Rightarrow> (Inr b, ds, [])
      | None \<Rightarrow>
          (case Datastore_buckets st ds of
             (listing, tr) \<Rightarrow>
               (case listing bid of
                  Some md \<Rightarrow>
                    (let b = \<lparr>ref = next_ref ds, bucket_id = bid\<rparr>;
                         ds' = ds\<lparr>bucket_instances := (bucket_instances ds)(bid \<mapsto> b),
                                  next_ref := Suc (next_ref ds)\<rparr>
                     in (Inr b, ds', tr))
                | None \<Rightarrow>
                    (Inl KeyError, ds, tr @ [Log (Error_cannot_create_bucket_object bid)]))))"

text \<open>
  Lines 35-39. The default of \<open>created\<close> is the expression
  \<open>datetime.now(timezone.utc)\<close> in the \<open>def\<close> line. Python evaluates a default once,
  when the \<open>def\<close> statement runs, that is when the module is imported; the value is
  kept with the function and used by every call that omits the argument. The module,
  once imported, is therefore a value holding that datetime.
\<close>

record module =
  default_created :: datetime

definition import_module :: "datetime \<Rightarrow> module" where
  "import_module now = \<lparr>default_created = now\<rparr>"

definition Datastore_create_bucket ::
  "module \<Rightarrow> 's storage_strategy \<Rightarrow> 's datastore \<Rightarrow> string \<Rightarrow> string \<Rightarrow> string \<Rightarrow> string
     \<Rightarrow> datetime option \<Rightarrow> string option \<Rightarrow> (error + bucket) \<times> 's datastore \<times> effect list" where
  "Datastore_create_bucket m st ds bid btype client hostname created name =
     (let created' = (case created of None \<Rightarrow> default_created m | Some c \<Rightarrow> c);
          tr = [Log (Info_creating_bucket bid),
                Call (Create_bucket bid btype client hostname (Isoformat created') name)]
      in case st_create_bucket st (storage ds) bid btype client hostname
                (Isoformat created') name of
           (Some e, s') \<Rightarrow> (Inl e, ds\<lparr>storage := s'\<rparr>, tr)
         | (None, s') \<Rightarrow>
             (case Datastore_getitem st (ds\<lparr>storage := s'\<rparr>) bid of
                (r, ds', tr') \<Rightarrow> (r, ds', tr @ tr')))"

text \<open>Lines 41-45.\<close>

definition Datastore_delete_bucket ::
  "'s storage_strategy \<Rightarrow> 's datastore \<Rightarrow> string
     \<Rightarrow> (error + unit) \<times> 's datastore \<times> effect list" where
  "Datastore_delete_bucket st ds bid =
     (let instances = (case bucket_instances ds bid of
                         Some b \<Rightarrow> (bucket_instances ds)(bid := None)
                       | None \<Rightarrow> bucket_instances ds);
          tr = [Log (Info_deleting_bucket bid), Call (Delete_bucket bid)]
      in case st_delete_bucket st (storage ds) bid of
           (Some e, s') \<Rightarrow> (Inl e, ds\<lparr>bucket_instances := instances, storage := s'\<rparr>, tr)
         | (None, s') \<Rightarrow> (Inr (), ds\<lparr>bucket_instances := instances, storage := s'\<rparr>, tr))"

section \<open>\<open>Bucket.insert\<close>\<close>

text \<open>
  The argument of \<open>insert\<close> is whatever the caller passes. \<open>isinstance\<close> tells an
  \<open>Event\<close>, a \<open>list\<close>, and an object that is neither, which the last \<open>else\<close> takes. A
  list is a list of events (\<open>A_list\<close>, empty or not), or it holds an element that is
  not an \<open>Event\<close> (\<open>A_list_with\<close>): then it is given by the events before the first
  such element, that element, and the elements after it, whatever they are.
\<close>

datatype insert_arg =
    An_event event
  | A_list "event list"
  | A_list_with "event list" py_nonevent "py_item list"
  | Another py_other

definition list_items :: "event list \<Rightarrow> py_nonevent \<Rightarrow> py_item list \<Rightarrow> py_item list" where
  "list_items evs x rest = map Item_event evs @ Item_nonevent x # rest"

datatype inserted = One event | Many "event list" | Many_items "py_item list"

text \<open>
  \<open>k['timestamp']\<close>, the key of the sort at line 92. An \<open>Event\<close> gives its timestamp, a
  dict what it holds under that key or a \<open>KeyError\<close>; the other objects and a list
  cannot be subscripted with a string: \<open>TypeError\<close>.
\<close>

fun item_timestamp :: "py_item \<Rightarrow> error + py_scalar" where
  "item_timestamp (Item_event e) = Inr (Scalar_datetime (timestamp e))"
| "item_timestamp (Item_nonevent (Not_event (PyDict kvs))) =
     (case map_of kvs ''timestamp'' of None \<Rightarrow> Inl KeyError | Some v \<Rightarrow> Inr v)"
| "item_timestamp (Item_nonevent (Not_event PyNone)) = Inl TypeError"
| "item_timestamp (Item_nonevent (Not_event (PyInt n))) = Inl TypeError"
| "item_timestamp (Item_nonevent (Not_event (PyStr s))) = Inl TypeError"
| "item_timestamp (Item_nonevent (Not_event (PyTuple es))) = Inl TypeError"
| "item_timestamp (Item_nonevent (Nested_list es)) = Inl TypeError"

text \<open>\<open>sorted\<close> computes the keys of all elements, in order, before it compares any.\<close>

fun timestamps :: "py_item list \<Rightarrow> error + py_scalar list" where
  "timestamps [] = Inr []"
| "timestamps (x # xs) =
     (case item_timestamp x of
        Inl e \<Rightarrow> Inl e
      | Inr k \<Rightarrow> (case timestamps xs of Inl e \<Rightarrow> Inl e | Inr ks \<Rightarrow> Inr (k # ks)))"

text \<open>
  \<open><\<close> compares two integers or two datetimes; between an integer and a datetime, and
  with \<open>None\<close> on either side, it raises \<open>TypeError\<close>. Sorting two or more keys compares
  them until their order is known, so it raises unless all of them are integers or
  all of them are datetimes; one key alone is never compared. Keys of one kind are
  ordered as their images under \<open>scalar_key\<close> are.
\<close>

fun same_kind :: "py_scalar \<Rightarrow> py_scalar \<Rightarrow> bool" where
  "same_kind (Scalar_int i) (Scalar_int j) = True"
| "same_kind (Scalar_datetime d) (Scalar_datetime d') = True"
| "same_kind k k' = False"

fun scalar_key :: "py_scalar \<Rightarrow> int \<times> nat \<times> nat \<times> nat \<times> nat \<times> nat" where
  "scalar_key (Scalar_int i) = (i, 0, 0, 0, 0, 0)"
| "scalar_key (Scalar_datetime d) = (0, dt_key d)"
| "scalar_key Scalar_none = (0, 0, 0, 0, 0, 0)"

text \<open>
  \<open>sorted(events, key=lambda k: k['timestamp'])[0]\<close> for a list that is not empty and
  may hold any elements.
\<close>

definition oldest_item :: "py_item list \<Rightarrow> error + py_item" where
  "oldest_item items =
     (case timestamps items of
        Inl e \<Rightarrow> Inl e
      | Inr keys \<Rightarrow>
          (if 2 \<le> length keys \<and> \<not> list_all (same_kind (hd keys)) keys
           then Inl TypeError
           else Inr (fst (hd (sort_key (\<lambda>p. scalar_key (snd p)) (zip items keys))))))"

text \<open>Lines 101-105: the warning, when both events are there and the new one is older.\<close>

definition older_warning :: "event option \<Rightarrow> event option \<Rightarrow> effect list" where
  "older_warning last_event oldest_event =
     (case last_event of
        None \<Rightarrow> []
      | Some l \<Rightarrow>
          (case oldest_event of
             None \<Rightarrow> []
           | Some old \<Rightarrow>
               (if truthy l \<and> truthy old then
                  (if dt_key (timestamp old) < dt_key (timestamp l)
                   then [Log (Warning_older_timestamp l old)] else [])
                else [])))"

text \<open>
  Lines 75-107. \<open>sorted(events, key=lambda k: k['timestamp'])\<close> is a stable sort by
  timestamp, as \<open>sort_key\<close> is; \<open>[0]\<close> takes its first element (the list is not empty
  there). A list that holds an element which is not an \<open>Event\<close> takes the same path:
  the sort may raise, before any call of the storage strategy; otherwise \<open>insert_many\<close>
  is called with the list; and when there was a last event, line 102 reads
  \<open>oldest_event.timestamp\<close>, which a dict does not have (a dict that went through the
  sort holds the key \<open>timestamp\<close>, so it is not empty, and true).
\<close>

definition Bucket_insert ::
  "'s storage_strategy \<Rightarrow> 's datastore \<Rightarrow> bucket \<Rightarrow> insert_arg
     \<Rightarrow> (error + inserted) \<times> 's datastore \<times> effect list" where
  "Bucket_insert st ds b events =
     (case Bucket_get st ds b 1 None None of
        (Inl e, tr) \<Rightarrow> (Inl e, ds, tr)
      | (Inr last_event_list, tr) \<Rightarrow>
          (let last_event = (if length last_event_list > 0
                             then Some (last_event_list ! 0) else None)
           in case events of
                An_event ev \<Rightarrow>
                  (case st_insert_one st (storage ds) (bucket_id b) ev of
                     (ins, s') \<Rightarrow>
                       (if \<not> truthy ins
                        then (Inl AssertionError, ds\<lparr>storage := s'\<rparr>,
                              tr @ [Call (Insert_one (bucket_id b) ev)])
                        else (Inr (One ins), ds\<lparr>storage := s'\<rparr>,
                              tr @ [Call (Insert_one (bucket_id b) ev)]
                                 @ older_warning last_event (Some ev))))
              | A_list evs \<Rightarrow>
                  (let oldest_event =
                         (if length evs > 0
                          then Some (hd (sort_key (\<lambda>k. dt_key (timestamp k)) evs))
                          else None)
                   in case st_insert_many st (storage ds) (bucket_id b) evs of
                        (ins, s') \<Rightarrow>
                          (Inr (Many ins), ds\<lparr>storage := s'\<rparr>,
                           tr @ [Call (Insert_many (bucket_id b) evs)]
                              @ older_warning last_event oldest_event))
              | A_list_with evs x rest \<Rightarrow>
                  (case oldest_item (list_items evs x rest) of
                     Inl e \<Rightarrow> (Inl e, ds, tr)
                   | Inr oldest \<Rightarrow>
                       (case st_insert_many_items st (storage ds) (bucket_id b)
                               (list_items evs x rest) of
                          (Inl e, s') \<Rightarrow>
                            (Inl e, ds\<lparr>storage := s'\<rparr>,
                             tr @ [Call (Insert_many_items (bucket_id b) (list_items evs x rest))])
                        | (Inr ins, s') \<Rightarrow>
                            (case last_event of
                               None \<Rightarrow>
                                 (Inr (Many_items ins), ds\<lparr>storage := s'\<rparr>,
                                  tr @ [Call (Insert_many_items (bucket_id b)
                                                (list_items evs x rest))])
                             | Some l \<Rightarrow>
                                 (case oldest of
                                    Item_event old \<Rightarrow>
                                      (Inr (Many_items ins), ds\<lparr>storage := s'\<rparr>,
                                       tr @ [Call (Insert_many_items (bucket_id b)
                                                     (list_items evs x rest))]
                                          @ older_warning (Some l) (Some old))
                                  | Item_nonevent y \<Rightarrow>
                                      (if truthy l
                                       then (Inl AttributeError, ds\<lparr>storage := s'\<rparr>,
                                             tr @ [Call (Insert_many_items (bucket_id b)
                                                           (list_items evs x rest))])
                                       else (Inr (Many_items ins), ds\<lparr>storage := s'\<rparr>,
                                             tr @ [Call (Insert_many_items (bucket_id b)
                                                           (list_items evs x rest))]))))))
              | Another x \<Rightarrow> (Inl TypeError, ds, tr)))"

section \<open>Sequences of \<open>Datastore\<close> operations\<close>

text \<open>
  A caller's use of one \<open>Datastore\<close>: each operation runs on the state the one before
  left, whether it returned or raised.
\<close>

datatype ds_op =
    Lookup string
  | Create string string string string "datetime option" "string option"
  | Delete string
  | List_buckets

definition run_op :: "module \<Rightarrow> 's storage_strategy \<Rightarrow> 's datastore \<Rightarrow> ds_op \<Rightarrow> 's datastore" where
  "run_op m st ds op =
     (case op of
        Lookup bid \<Rightarrow> fst (snd (Datastore_getitem st ds bid))
      | Create bid btype client hostname created name \<Rightarrow>
          fst (snd (Datastore_create_bucket m st ds bid btype client hostname created name))
      | Delete bid \<Rightarrow> fst (snd (Datastore_delete_bucket st ds bid))
      | List_buckets \<Rightarrow> ds)"

definition run_ops ::
  "module \<Rightarrow> 's storage_strategy \<Rightarrow> 's datastore \<Rightarrow> ds_op list \<Rightarrow> 's datastore" where
  "run_ops m st ds ops = foldl (run_op m st) ds ops"

text \<open>The invariant of section 3: every cached handle is of a listed bucket.\<close>

definition cache_listed :: "'s storage_strategy \<Rightarrow> 's datastore \<Rightarrow> bool" where
  "cache_listed st ds \<longleftrightarrow> dom (bucket_instances ds) \<subseteq> dom (st_buckets st (storage ds))"

section \<open>What the facade expects of a storage strategy\<close>

text \<open>
  The storage strategy lists what it creates: a bucket whose creation returned is in
  the listing.
\<close>

definition lists_created :: "'s storage_strategy \<Rightarrow> bool" where
  "lists_created st \<longleftrightarrow>
     (\<forall>s bid btype client hostname created name.
        fst (st_create_bucket st s bid btype client hostname created name) = None \<longrightarrow>
        bid \<in> dom (st_buckets st
                     (snd (st_create_bucket st s bid btype client hostname created name))))"

text \<open>
  Creating or deleting one bucket takes no other bucket off the listing, whether the
  call returns or raises.
\<close>

definition keeps_listing :: "'s storage_strategy \<Rightarrow> bool" where
  "keeps_listing st \<longleftrightarrow>
     (\<forall>s bid btype client hostname created name.
        dom (st_buckets st s) \<subseteq>
        dom (st_buckets st
               (snd (st_create_bucket st s bid btype client hostname created name)))) \<and>
     (\<forall>s bid.
        dom (st_buckets st s) - {bid} \<subseteq> dom (st_buckets st (snd (st_delete_bucket st s bid))))"

text \<open>
  \<open>get_events\<close> honours its limit: at most \<open>limit\<close> events when the limit is not
  negative, and all the events that match the query, \<open>matching\<close>, when it is.
\<close>

definition honors_limit ::
  "'s storage_strategy \<Rightarrow> ('s \<Rightarrow> string \<Rightarrow> datetime option \<Rightarrow> datetime option \<Rightarrow> event list)
     \<Rightarrow> bool" where
  "honors_limit st matching \<longleftrightarrow>
     (\<forall>s bid limit starttime endtime.
        (0 \<le> limit \<longrightarrow>
           length (st_get_events st s bid limit starttime endtime) \<le> nat limit) \<and>
        (limit < 0 \<longrightarrow>
           st_get_events st s bid limit starttime endtime = matching s bid starttime endtime))"

text \<open>
  Modelled from the spec: the time range of a query, which the storage strategy
  applies. Both bounds are part of the range (events on the boundary are included),
  and an absent bound does not restrict.
\<close>

definition within_window :: "datetime option \<Rightarrow> datetime option \<Rightarrow> datetime \<Rightarrow> bool" where
  "within_window starttime endtime t \<longleftrightarrow>
     (case starttime of None \<Rightarrow> True | Some t1 \<Rightarrow> dt_key t1 \<le> dt_key t) \<and>
     (case endtime of None \<Rightarrow> True | Some t2 \<Rightarrow> dt_key t \<le> dt_key t2)"

section \<open>A storage strategy in memory\<close>

text \<open>
  Modelled from the spec: the storage strategies of the repository (\<open>aw_datastore.storages\<close>)
  are not part of the module. This one keeps, for every bucket, its metadata and its
  events, latest first, and follows section 6 of the specification. It is the
  strategy the concrete runs below use.
\<close>

record mem_bucket =
  mb_metadata :: metadata
  mb_events :: "event list"

type_synonym memory = "string \<rightharpoonup> mem_bucket"

fun insert_desc :: "event \<Rightarrow> event list \<Rightarrow> event list" where
  "insert_desc e [] = [e]"
| "insert_desc e (x # xs) =
     (if dt_key (timestamp x) \<le> dt_key (timestamp e) then e # x # xs
      else x # insert_desc e xs)"

definition mem_buckets :: "memory \<Rightarrow> string \<rightharpoonup> metadata" where
  "mem_buckets s = (\<lambda>bid. map_option mb_metadata (s bid))"

definition mem_create_bucket ::
  "memory \<Rightarrow> string \<Rightarrow> string \<Rightarrow> string \<Rightarrow> string \<Rightarrow> iso8601 \<Rightarrow> string option
     \<Rightarrow> error option \<times> memory" where
  "mem_create_bucket s bid btype client hostname created name =
     (case s bid of
        Some mb \<Rightarrow> (None, s)
      | None \<Rightarrow>
          (None, s(bid \<mapsto> \<lparr>mb_metadata = \<lparr>md_id = bid, md_type = btype, md_client = client,
                                           md_hostname = hostname, md_created = created,
                                           md_name = name\<rparr>,
                           mb_events = []\<rparr>)))"

definition mem_delete_bucket :: "memory \<Rightarrow> string \<Rightarrow> error option \<times> memory" where
  "mem_delete_bucket s bid =
     (case s bid of
        Some mb \<Rightarrow> (None, s(bid := None))
      | None \<Rightarrow> (Some (StorageFailure ''Bucket did not exist, could not delete''), s))"

definition mem_get_events ::
  "memory \<Rightarrow> string \<Rightarrow> int \<Rightarrow> datetime option \<Rightarrow> datetime option \<Rightarrow> event list" where
  "mem_get_events s bid limit starttime endtime =
     (case s bid of
        None \<Rightarrow> []
      | Some mb \<Rightarrow>
          (let evs = filter (\<lambda>e. within_window starttime endtime (timestamp e)) (mb_events mb)
           in if limit < 0 then evs else take (nat limit) evs))"

definition mem_insert_one :: "memory \<Rightarrow> string \<Rightarrow> event \<Rightarrow> event \<times> memory" where
  "mem_insert_one s bid e =
     (case s bid of
        None \<Rightarrow> (e, s)
      | Some mb \<Rightarrow> (e, s(bid \<mapsto> mb\<lparr>mb_events := insert_desc e (mb_events mb)\<rparr>)))"

definition mem_insert_many :: "memory \<Rightarrow> string \<Rightarrow> event list \<Rightarrow> event list \<times> memory" where
  "mem_insert_many s bid es =
     (case s bid of
        None \<Rightarrow> (es, s)
      | Some mb \<Rightarrow> (es, s(bid \<mapsto> mb\<lparr>mb_events := foldr insert_desc es (mb_events mb)\<rparr>)))"

text \<open>
  A list with elements that are not events: this storage takes a dict that holds a
  datetime under \<open>timestamp\<close> for an event of that timestamp, and refuses a list with
  any other element.
\<close>

fun item_as_event :: "py_item \<Rightarrow> event option" where
  "item_as_event (Item_event e) = Some e"
| "item_as_event (Item_nonevent (Not_event (PyDict kvs))) =
     (case map_of kvs ''timestamp'' of
        Some (Scalar_datetime t) \<Rightarrow>
          Some \<lparr>event_id = None, timestamp = t, duration = 0, data = []\<rparr>
      | _ \<Rightarrow> None)"
| "item_as_event (Item_nonevent x) = None"

definition mem_insert_many_items ::
  "memory \<Rightarrow> string \<Rightarrow> py_item list \<Rightarrow> (error + py_item list) \<times> memory" where
  "mem_insert_many_items s bid items =
     (case those (map item_as_event items) of
        None \<Rightarrow> (Inl (StorageFailure ''not an event''), s)
      | Some es \<Rightarrow> (Inr items, snd (mem_insert_many s bid es)))"

definition memory_storage :: "memory storage_strategy" where
  "memory_storage =
     \<lparr>st_buckets = mem_buckets, st_create_bucket = mem_create_bucket,
      st_delete_bucket = mem_delete_bucket, st_get_events = mem_get_events,
      st_insert_one = mem_insert_one, st_insert_many = mem_insert_many,
      st_insert_many_items = mem_insert_many_items\<rparr>"

section \<open>The out-of-order warning, in the words of the specification\<close>

text \<open>
  The oldest inserted event of a list: one of its events, no later than any of them,
  and the first of the list among those of its timestamp (ties are broken by the
  original order).
\<close>

definition earliest_stable :: "event list \<Rightarrow> event \<Rightarrow> bool" where
  "earliest_stable es oldest \<longleftrightarrow>
     oldest \<in> set es \<and>
     (\<forall>x\<in>set es. dt_key (timestamp oldest) \<le> dt_key (timestamp x)) \<and>
     oldest = hd (filter (\<lambda>x. dt_key (timestamp x) = dt_key (timestamp oldest)) es)"

text \<open>
  The warning that is due: none when \<open>get(limit=1)\<close> returned no event before the
  insert; otherwise one, naming the last event and the oldest inserted event, exactly
  when the oldest inserted event is strictly earlier than the last event.
\<close>

definition expected_warning :: "event list \<Rightarrow> event \<Rightarrow> effect list" where
  "expected_warning last_event_list oldest =
     (case last_event_list of
        [] \<Rightarrow> []
      | l # rest \<Rightarrow>
          (if dt_key (timestamp oldest) < dt_key (timestamp l)
           then [Log (Warning_older_timestamp l oldest)] else []))"

section \<open>Concrete values\<close>

text \<open>
  Day 737425 is 2020-01-01. \<open>t_late\<close> is 23:59:59.999500 of that day; \<open>t_last\<close> is the
  same time of day on 9999-12-31, the last day a datetime can hold; \<open>t_noon\<close> is
  12:00:00.001234 and \<open>t_noon_ms\<close> the millisecond it lies in, 12:00:00.001000. \<open>demo_ds\<close> is a
  \<open>Datastore\<close> over the storage in memory, with one bucket \<open>a\<close> that holds two
  events (of 12:00:00.001000 and of 08:00:00) and whose handle is cached; \<open>blank_ds\<close> is
  the same with no event in the bucket. \<open>morning_dict\<close> is the dict
  \<open>{'timestamp': t}\<close> with \<open>t\<close> the datetime 2020-01-01 08:00:00.
\<close>

definition t_late :: datetime where
  "t_late = \<lparr>ordinal = 737425, hour = 23, minute = 59, second = 59, microsecond = 999500\<rparr>"

definition t_last :: datetime where
  "t_last = \<lparr>ordinal = 3652059, hour = 23, minute = 59, second = 59, microsecond = 999500\<rparr>"

definition t_morning :: datetime where
  "t_morning = \<lparr>ordinal = 737425, hour = 8, minute = 0, second = 0, microsecond = 0\<rparr>"

definition t_noon :: datetime where
  "t_noon = \<lparr>ordinal = 737425, hour = 12, minute = 0, second = 0, microsecond = 1234\<rparr>"

definition t_noon_ms :: datetime where
  "t_noon_ms = \<lparr>ordinal = 737425, hour = 12, minute = 0, second = 0, microsecond = 1000\<rparr>"

definition ev_morning :: event where
  "ev_morning = \<lparr>event_id = None, timestamp = t_morning, duration = 0, data = []\<rparr>"

definition ev_noon :: event where
  "ev_noon = \<lparr>event_id = None, timestamp = t_noon_ms, duration = 0, data = []\<rparr>"

definition demo_bucket :: bucket where
  "demo_bucket = \<lparr>ref = 0, bucket_id = ''a''\<rparr>"

definition demo_metadata :: metadata where
  "demo_metadata = \<lparr>md_id = ''a'', md_type = ''t'', md_client = ''c'', md_hostname = ''h'',
                     md_created = Isoformat t_morning, md_name = None\<rparr>"

definition demo_ds :: "memory datastore" where
  "demo_ds = \<lparr>bucket_instances = [''a'' \<mapsto> demo_bucket],
              storage = [''a'' \<mapsto> \<lparr>mb_metadata = demo_metadata, mb_events = [ev_noon, ev_morning]\<rparr>],
              next_ref = 1\<rparr>"

definition t_dawn :: datetime where
  "t_dawn = \<lparr>ordinal = 737425, hour = 6, minute = 0, second = 0, microsecond = 0\<rparr>"

definition t_evening :: datetime where
  "t_evening = \<lparr>ordinal = 737425, hour = 18, minute = 0, second = 0, microsecond = 0\<rparr>"

definition ev_dawn :: event where
  "ev_dawn = \<lparr>event_id = None, timestamp = t_dawn, duration = 0, data = []\<rparr>"

definition ev_dawn_again :: event where
  "ev_dawn_again = \<lparr>event_id = None, timestamp = t_dawn, duration = 5, data = []\<rparr>"

definition ev_evening :: event where
  "ev_evening = \<lparr>event_id = None, timestamp = t_evening, duration = 0, data = []\<rparr>"

definition blank_ds :: "memory datastore" where
  "blank_ds = \<lparr>bucket_instances = [''a'' \<mapsto> demo_bucket],
               storage = [''a'' \<mapsto> \<lparr>mb_metadata = demo_metadata, mb_events = []\<rparr>],
               next_ref = 1\<rparr>"

definition morning_dict :: py_nonevent where
  "morning_dict = Not_event (PyDict [(''timestamp'', Scalar_datetime t_morning)])"

definition empty_ds :: "memory datastore" where
  "empty_ds = Datastore_init Map.empty"

section \<open>Arithmetic of milliseconds and seconds\<close>

lemma below_million: "(x::nat) < 1000000 \<Longrightarrow> x \<le> 999999"
  by simp

lemma ms_split:
  fixes n :: nat
  obtains q r where "n = 1000 * q + r" and "r < 1000" and "q = n div 1000"
proof
  show "n = 1000 * (n div 1000) + n mod 1000" by simp
  show "n mod 1000 < 1000" by simp
  show "n div 1000 = n div 1000" ..
qed

lemma ms_up_gt: "(n::nat) < 1000 * (n div 1000 + 1)"
proof -
  obtain q r where "n = 1000 * q + r" "r < 1000" "q = n div 1000" by (rule ms_split)
  then show ?thesis by simp
qed

lemma ms_up_le: "1000 * ((n::nat) div 1000 + 1) \<le> n + 1000"
proof -
  obtain q r where "n = 1000 * q + r" "r < 1000" "q = n div 1000" by (rule ms_split)
  then show ?thesis by simp
qed

lemma ms_carry_q: "999999 < 1000 * ((q::nat) + 1) \<longleftrightarrow> 999 \<le> q"
proof (cases "999 \<le> q")
  case True
  then show ?thesis by simp
next
  case False
  then show ?thesis by simp
qed

lemma ms_carry: "1000 * ((m::nat) div 1000 + 1) > 999999 \<longleftrightarrow> 999000 \<le> m"
proof -
  obtain q r where qr: "m = 1000 * q + r" "r < 1000" "q = m div 1000" by (rule ms_split)
  have "999 \<le> q \<longleftrightarrow> 999000 \<le> 1000 * q + r"
    using qr(2) by linarith
  with qr ms_carry_q [of q] show ?thesis by simp
qed

lemma ms_carry_eq:
  assumes "(m::nat) < 1000000" and "1000 * (m div 1000 + 1) > 999999"
  shows "1000 * (m div 1000 + 1) = 1000000"
proof -
  obtain q r where qr: "m = 1000 * q + r" "r < 1000" "q = m div 1000" by (rule ms_split)
  have "999 \<le> q" using assms(2) qr(3) ms_carry_q [of q] by simp
  moreover have "q \<le> 999" using assms(1) qr(1) by simp
  ultimately have "q = 999" by simp
  with qr(3) show ?thesis by simp
qed


lemma time_of_day_split:
  fixes r :: nat
  shows "r div 3600 * 3600 + r mod 3600 div 60 * 60 + r mod 60 = r"
proof -
  have "r mod 3600 mod 60 = r mod 60"
    by (simp add: mod_mod_cancel)
  then have "r mod 3600 div 60 * 60 + r mod 60 = r mod 3600"
    by (metis div_mult_mod_eq)
  then show ?thesis
    by (metis add.assoc div_mult_mod_eq)
qed

lemma add_seconds_one:
  assumes "valid_datetime t" and "to_seconds t < MAXORDINAL * 86400 + 86399"
  shows "\<exists>t'. add_seconds t 1 = Inr t' \<and> valid_datetime t' \<and>
           to_seconds t' = to_seconds t + 1 \<and> microsecond t' = microsecond t"
proof -
  define secs where "secs = hour t * 3600 + minute t * 60 + second t + 1"
  define days where "days = ordinal t + secs div 86400"
  define r where "r = secs mod 86400"
  have secs_le: "secs \<le> 86400"
    using assms(1) by (simp add: secs_def valid_datetime_def)
  have days_ok: "0 < days \<and> days \<le> MAXORDINAL"
  proof (cases "secs = 86400")
    case True
    then have "ordinal t < MAXORDINAL"
      using assms(2) by (simp add: to_seconds_def secs_def)
    with True assms(1) show ?thesis
      by (simp add: days_def valid_datetime_def)
  next
    case False
    with secs_le have "secs div 86400 = 0" by simp
    with assms(1) show ?thesis
      by (simp add: days_def valid_datetime_def)
  qed
  define t' where "t' = t\<lparr>ordinal := days, hour := r div 3600,
                      minute := r mod 3600 div 60, second := r mod 60\<rparr>"
  have eq: "add_seconds t 1 = Inr t'"
    using days_ok by (simp add: add_seconds_def Let_def secs_def days_def r_def t'_def)
  have r_lt: "r < 86400" by (simp add: r_def)
  have "r div 3600 < 24" using r_lt by simp
  moreover have "r mod 3600 div 60 < 60"
    by (simp add: less_mult_imp_div_less)
  ultimately have valid: "valid_datetime t'"
    using days_ok assms(1) by (simp add: valid_datetime_def t'_def)
  have "days * 86400 + r = ordinal t * 86400 + secs"
    by (simp add: days_def r_def add_mult_distrib)
  then have "to_seconds t' = to_seconds t + 1"
    using time_of_day_split [of r] by (simp add: to_seconds_def t'_def secs_def)
  with eq valid show ?thesis by (auto simp: t'_def)
qed

lemma hd_sort_key_earliest:
  fixes f :: "'a \<Rightarrow> 'k::linorder"
  assumes "xs \<noteq> []"
  shows "hd (sort_key f xs) \<in> set xs"
    and "\<forall>x\<in>set xs. f (hd (sort_key f xs)) \<le> f x"
    and "hd (sort_key f xs) = hd (filter (\<lambda>x. f x = f (hd (sort_key f xs))) xs)"
proof -
  from assms have "sort_key f xs \<noteq> []"
    by (metis length_0_conv length_sort)
  then obtain h t where ht: "sort_key f xs = h # t"
    by (cases "sort_key f xs") auto
  have "set (h # t) = set xs"
    using ht by (metis set_sort)
  then show "hd (sort_key f xs) \<in> set xs"
    using ht by auto
  have "sorted (map f (h # t))"
    using ht by (metis sorted_sort_key)
  then have "\<forall>x\<in>set (h # t). f h \<le> f x"
    by auto
  with \<open>set (h # t) = set xs\<close> show "\<forall>x\<in>set xs. f (hd (sort_key f xs)) \<le> f x"
    using ht by simp
  have "filter (\<lambda>x. f x = f h) xs = filter (\<lambda>x. f x = f h) (h # t)"
    using ht by (metis sort_key_stable)
  then show "hd (sort_key f xs) = hd (filter (\<lambda>x. f x = f (hd (sort_key f xs))) xs)"
    using ht by simp
qed


lemma round_endtime_ok:
  assumes "valid_datetime endtime"
    and "microsecond endtime < 999000 \<or> to_seconds endtime < MAXORDINAL * 86400 + 86399"
  shows "\<exists>eff. round_endtime (Some endtime) = Inr (Some eff) \<and> valid_datetime eff \<and>
           (if 1000 * (microsecond endtime div 1000 + 1) > 999999
            then microsecond eff = 0 \<and> to_seconds eff = to_seconds endtime + 1
            else eff = endtime\<lparr>microsecond := 1000 * (microsecond endtime div 1000 + 1)\<rparr>)"
proof (cases "1000 * (microsecond endtime div 1000 + 1) > 999999")
  case True
  then have big: "\<not> microsecond endtime < 999000" by (simp add: ms_carry)
  let ?t0 = "endtime\<lparr>microsecond := 0\<rparr>"
  have "valid_datetime ?t0"
    using assms(1) by (simp add: valid_datetime_def)
  moreover have "to_seconds ?t0 < MAXORDINAL * 86400 + 86399"
    using assms(2) big by (simp add: to_seconds_def)
  ultimately obtain t' where t': "add_seconds ?t0 1 = Inr t'" "valid_datetime t'"
      "to_seconds t' = to_seconds ?t0 + 1" "microsecond t' = microsecond ?t0"
    using add_seconds_one by blast
  have "round_endtime (Some endtime) = Inr (Some t')"
    using True t'(1) by (simp add: round_endtime_def replace_microsecond_def)
  with True t' show ?thesis
    by (simp add: to_seconds_def)
next
  case False
  then have "round_endtime (Some endtime) =
      Inr (Some (endtime\<lparr>microsecond := 1000 * (microsecond endtime div 1000 + 1)\<rparr>))"
    by (simp add: round_endtime_def replace_microsecond_def)
  moreover have "valid_datetime (endtime\<lparr>microsecond := 1000 * (microsecond endtime div 1000 + 1)\<rparr>)"
    using assms(1) False by (simp add: valid_datetime_def)
  ultimately show ?thesis using False by simp
qed

lemma round_starttime_ok:
  assumes "valid_datetime t"
  shows "round_starttime (Some t) = Inr (Some (t\<lparr>microsecond := 1000 * (microsecond t div 1000)\<rparr>))"
    and "valid_datetime (t\<lparr>microsecond := 1000 * (microsecond t div 1000)\<rparr>)"
proof -
  have a: "1000 * (microsecond t div 1000) \<le> microsecond t" by simp
  have b: "microsecond t < 1000000" using assms by (simp add: valid_datetime_def)
  from a b have "1000 * (microsecond t div 1000) < 1000000"
    by (rule le_less_trans)
  then have le: "1000 * (microsecond t div 1000) \<le> 999999"
    by (rule below_million)
  then show "round_starttime (Some t) =
      Inr (Some (t\<lparr>microsecond := 1000 * (microsecond t div 1000)\<rparr>))"
    by (simp add: round_starttime_def replace_microsecond_def)
  from le assms show "valid_datetime (t\<lparr>microsecond := 1000 * (microsecond t div 1000)\<rparr>)"
    by (simp add: valid_datetime_def)
qed

lemma next_millisecond:
  fixes s m :: nat
  assumes "m < 1000000"
  shows "1000 * ((s * 1000000 + m) div 1000 + 1) = s * 1000000 + 1000 * (m div 1000 + 1)"
proof -
  have "(m + (s * 1000) * 1000) div 1000 = s * 1000 + m div 1000"
    by (rule div_mult_self1) simp
  moreover have "s * 1000000 + m = m + (s * 1000) * 1000" by simp
  ultimately have "(s * 1000000 + m) div 1000 = s * 1000 + m div 1000"
    by simp
  then show ?thesis by simp
qed

section \<open>Facts about the operations\<close>

lemma ms_div: "((s::nat) * 1000000 + m) div 1000 = s * 1000 + m div 1000"
proof -
  have "(m + (s * 1000) * 1000) div 1000 = s * 1000 + m div 1000"
    by (rule div_mult_self1) simp
  moreover have "s * 1000000 + m = m + (s * 1000) * 1000" by simp
  ultimately show ?thesis by simp
qed

lemma Bucket_get_rounded:
  assumes "round_starttime starttime = Inr starttime'" and "round_endtime endtime = Inr endtime'"
  shows "Bucket_get st ds b limit starttime endtime =
     (Inr (st_get_events st (storage ds) (bucket_id b) limit starttime' endtime'),
      [Call (Get_events (bucket_id b) limit starttime' endtime')])"
  using assms by (simp add: Bucket_get_def)

lemma Bucket_get_no_window:
  "Bucket_get st ds b limit None None =
     (Inr (st_get_events st (storage ds) (bucket_id b) limit None None),
      [Call (Get_events (bucket_id b) limit None None)])"
  by (rule Bucket_get_rounded) (simp_all add: round_starttime_def round_endtime_def)

lemma memory_honors_limit:
  "honors_limit memory_storage (\<lambda>s bid. mem_get_events s bid (- 1))"
  by (simp add: honors_limit_def memory_storage_def mem_get_events_def split: option.splits)

lemma getitem_cached:
  "bucket_instances ds bid = Some h \<Longrightarrow> Datastore_getitem st ds bid = (Inr h, ds, [])"
  by (simp add: Datastore_getitem_def)

lemma getitem_listed:
  assumes "bucket_instances ds bid = None" and "st_buckets st (storage ds) bid = Some md"
  shows "Datastore_getitem st ds bid =
     (Inr \<lparr>ref = next_ref ds, bucket_id = bid\<rparr>,
      ds\<lparr>bucket_instances := (bucket_instances ds)(bid \<mapsto> \<lparr>ref = next_ref ds, bucket_id = bid\<rparr>),
         next_ref := Suc (next_ref ds)\<rparr>,
      [Call Buckets])"
  using assms by (simp add: Datastore_getitem_def Datastore_buckets_def Let_def)

lemma getitem_absent:
  assumes "bucket_instances ds bid = None" and "st_buckets st (storage ds) bid = None"
  shows "Datastore_getitem st ds bid =
     (Inl KeyError, ds, [Call Buckets, Log (Error_cannot_create_bucket_object bid)])"
  using assms by (simp add: Datastore_getitem_def Datastore_buckets_def)

lemma getitem_returns_cached:
  assumes "Datastore_getitem st ds bid = (Inr h, ds1, tr)"
  shows "bucket_instances ds1 bid = Some h"
proof (cases "bucket_instances ds bid")
  case (Some h')
  with assms show ?thesis by (simp add: getitem_cached)
next
  case None
  show ?thesis
  proof (cases "st_buckets st (storage ds) bid")
    case (Some md)
    with None assms show ?thesis by (auto simp: getitem_listed)
  next
    case None': None
    with None assms show ?thesis by (simp add: getitem_absent)
  qed
qed

lemma getitem_cache_listed:
  assumes "cache_listed st ds"
  shows "cache_listed st (fst (snd (Datastore_getitem st ds bid)))"
proof (cases "bucket_instances ds bid")
  case (Some h)
  with assms show ?thesis by (simp add: getitem_cached)
next
  case None
  show ?thesis
  proof (cases "st_buckets st (storage ds) bid")
    case (Some md)
    with None assms show ?thesis by (auto simp: getitem_listed cache_listed_def)
  next
    case None': None
    with None assms show ?thesis by (simp add: getitem_absent)
  qed
qed

lemma create_bucket_raised:
  assumes "st_create_bucket st (storage ds) bid btype client hostname
             (Isoformat (case created of None \<Rightarrow> default_created m | Some c \<Rightarrow> c)) name = (Some e, s')"
  shows "Datastore_create_bucket m st ds bid btype client hostname created name =
     (Inl e, ds\<lparr>storage := s'\<rparr>,
      [Log (Info_creating_bucket bid),
       Call (Create_bucket bid btype client hostname
               (Isoformat (case created of None \<Rightarrow> default_created m | Some c \<Rightarrow> c)) name)])"
  using assms by (simp add: Datastore_create_bucket_def Let_def)

lemma create_bucket_returned:
  assumes "st_create_bucket st (storage ds) bid btype client hostname
             (Isoformat (case created of None \<Rightarrow> default_created m | Some c \<Rightarrow> c)) name = (None, s')"
    and "Datastore_getitem st (ds\<lparr>storage := s'\<rparr>) bid = (r, ds', tr)"
  shows "Datastore_create_bucket m st ds bid btype client hostname created name =
     (r, ds',
      [Log (Info_creating_bucket bid),
       Call (Create_bucket bid btype client hostname
               (Isoformat (case created of None \<Rightarrow> default_created m | Some c \<Rightarrow> c)) name)] @ tr)"
  using assms by (simp add: Datastore_create_bucket_def Let_def)

lemma create_cache_listed:
  assumes "keeps_listing st" and "cache_listed st ds"
  shows "cache_listed st
           (fst (snd (Datastore_create_bucket m st ds bid btype client hostname created name)))"
proof -
  define iso where "iso = Isoformat (case created of None \<Rightarrow> default_created m | Some c \<Rightarrow> c)"
  obtain err s' where res: "st_create_bucket st (storage ds) bid btype client hostname iso name = (err, s')"
    by (cases "st_create_bucket st (storage ds) bid btype client hostname iso name")
  from assms(1) have "dom (st_buckets st (storage ds)) \<subseteq>
      dom (st_buckets st (snd (st_create_bucket st (storage ds) bid btype client hostname iso name)))"
    unfolding keeps_listing_def by blast
  with assms(2) res have listed: "cache_listed st (ds\<lparr>storage := s'\<rparr>)"
    by (auto simp: cache_listed_def)
  show ?thesis
  proof (cases err)
    case None
    obtain r ds' tr where g: "Datastore_getitem st (ds\<lparr>storage := s'\<rparr>) bid = (r, ds', tr)"
      by (cases "Datastore_getitem st (ds\<lparr>storage := s'\<rparr>) bid")
    from listed have "cache_listed st (fst (snd (Datastore_getitem st (ds\<lparr>storage := s'\<rparr>) bid)))"
      by (rule getitem_cache_listed)
    with g have "cache_listed st ds'" by simp
    moreover from res None g
    have "fst (snd (Datastore_create_bucket m st ds bid btype client hostname created name)) = ds'"
      unfolding iso_def by (simp add: create_bucket_returned)
    ultimately show ?thesis by simp
  next
    case (Some e)
    with res have "fst (snd (Datastore_create_bucket m st ds bid btype client hostname created name)) =
        ds\<lparr>storage := s'\<rparr>"
      unfolding iso_def by (simp add: create_bucket_raised)
    with listed show ?thesis by simp
  qed
qed

lemma delete_bucket_eq:
  "Datastore_delete_bucket st ds bid =
     (case fst (st_delete_bucket st (storage ds) bid) of None \<Rightarrow> Inr () | Some e \<Rightarrow> Inl e,
      ds\<lparr>bucket_instances := (bucket_instances ds)(bid := None),
         storage := snd (st_delete_bucket st (storage ds) bid)\<rparr>,
      [Log (Info_deleting_bucket bid), Call (Delete_bucket bid)])"
proof -
  have "(case bucket_instances ds bid of Some b \<Rightarrow> (bucket_instances ds)(bid := None)
         | None \<Rightarrow> bucket_instances ds) = (bucket_instances ds)(bid := None)"
    by (auto split: option.splits)
  then show ?thesis
    by (simp add: Datastore_delete_bucket_def Let_def split: prod.splits option.splits)
qed

lemma delete_cache_listed:
  assumes "keeps_listing st" and "cache_listed st ds"
  shows "cache_listed st (fst (snd (Datastore_delete_bucket st ds bid)))"
proof -
  from assms(1) have "dom (st_buckets st (storage ds)) - {bid} \<subseteq>
      dom (st_buckets st (snd (st_delete_bucket st (storage ds) bid)))"
    unfolding keeps_listing_def by blast
  with assms(2) show ?thesis
    by (auto simp: delete_bucket_eq cache_listed_def)
qed

lemma run_op_cache_listed:
  assumes "keeps_listing st" and "cache_listed st ds"
  shows "cache_listed st (run_op m st ds op)"
  using assms
  by (cases op) (simp_all add: run_op_def getitem_cache_listed create_cache_listed delete_cache_listed)

lemma run_ops_cache_listed:
  assumes "keeps_listing st" and "cache_listed st ds"
  shows "cache_listed st (run_ops m st ds ops)"
  using assms(2) unfolding run_ops_def
proof (induction ops arbitrary: ds)
  case Nil
  then show ?case by simp
next
  case (Cons op ops)
  from assms(1) Cons.prems have "cache_listed st (run_op m st ds op)"
    by (rule run_op_cache_listed)
  then show ?case using Cons.IH by simp
qed

lemma init_cache_listed: "cache_listed st (Datastore_init s0)"
  by (simp add: cache_listed_def Datastore_init_def)

lemma memory_lists_created: "lists_created memory_storage"
  by (auto simp: lists_created_def memory_storage_def mem_buckets_def mem_create_bucket_def
      split: option.splits if_splits)

lemma memory_keeps_listing: "keeps_listing memory_storage"
  by (auto simp: keeps_listing_def memory_storage_def mem_buckets_def mem_create_bucket_def
      mem_delete_bucket_def split: option.splits if_splits)

lemma getitem_listed_returns:
  assumes "st_buckets st (storage ds) bid = Some md"
  shows "\<exists>h ds' tr. Datastore_getitem st ds bid = (Inr h, ds', tr) \<and> storage ds' = storage ds"
proof (cases "bucket_instances ds bid")
  case (Some h)
  then show ?thesis by (simp add: getitem_cached)
next
  case None
  with assms show ?thesis by (simp add: getitem_listed)
qed

lemma expected_warning_iff:
  "(\<exists>l old. Log (Warning_older_timestamp l old) \<in> set (tr @ expected_warning xs oldest)) \<longleftrightarrow>
   (\<exists>l old. Log (Warning_older_timestamp l old) \<in> set tr) \<or>
   (xs \<noteq> [] \<and> dt_key (timestamp oldest) < dt_key (timestamp (hd xs)))"
  by (cases xs) (auto simp: expected_warning_def)

lemma older_warning_nonempty:
  "xs \<noteq> [] \<Longrightarrow> older_warning (Some (xs ! 0)) (Some oldest) = expected_warning xs oldest"
  by (cases xs) (simp_all add: older_warning_def expected_warning_def truthy_def)

lemma older_warning_empty:
  "older_warning None (Some oldest) = expected_warning [] oldest"
  by (simp add: older_warning_def expected_warning_def)

lemma insert_event_eq:
  "Bucket_insert st ds b (An_event e) =
     (Inr (One (fst (st_insert_one st (storage ds) (bucket_id b) e))),
      ds\<lparr>storage := snd (st_insert_one st (storage ds) (bucket_id b) e)\<rparr>,
      [Call (Get_events (bucket_id b) 1 None None), Call (Insert_one (bucket_id b) e)] @
      expected_warning (st_get_events st (storage ds) (bucket_id b) 1 None None) e)"
  by (simp add: Bucket_insert_def Bucket_get_no_window truthy_def older_warning_nonempty
      older_warning_empty split: prod.splits)

lemma insert_list_eq:
  assumes "es \<noteq> []"
  shows "Bucket_insert st ds b (A_list es) =
     (Inr (Many (fst (st_insert_many st (storage ds) (bucket_id b) es))),
      ds\<lparr>storage := snd (st_insert_many st (storage ds) (bucket_id b) es)\<rparr>,
      [Call (Get_events (bucket_id b) 1 None None), Call (Insert_many (bucket_id b) es)] @
      expected_warning (st_get_events st (storage ds) (bucket_id b) 1 None None)
        (hd (sort_key (\<lambda>k. dt_key (timestamp k)) es)))"
  using assms
  by (simp add: Bucket_insert_def Bucket_get_no_window older_warning_nonempty
      older_warning_empty split: prod.splits)

lemma hd_sort_key_earliest_stable:
  assumes "es \<noteq> []"
  shows "earliest_stable es (hd (sort_key (\<lambda>k. dt_key (timestamp k)) es))"
  unfolding earliest_stable_def
  using hd_sort_key_earliest [OF assms, of "\<lambda>k. dt_key (timestamp k)"] by blast

lemma timestamps_first_nonevent:
  assumes "\<forall>kvs. x \<noteq> Not_event (PyDict kvs)"
  shows "timestamps (list_items evs x rest) = Inl TypeError"
proof -
  have x: "item_timestamp (Item_nonevent x) = Inl TypeError"
  proof (cases x)
    case (Not_event y)
    with assms show ?thesis by (cases y) simp_all
  next
    case (Nested_list es)
    then show ?thesis by simp
  qed
  show ?thesis
    unfolding list_items_def by (induction evs) (simp_all add: x)
qed

section \<open>The time range of \<open>Bucket.get\<close>\<close>

text \<open>
  Claim C1, as the code has it. For a valid \<open>endtime\<close> before 9999-12-31
  23:59:59.999000 (from there on the rounding needs the second after the last one a
  datetime can hold), \<open>Bucket.get\<close>
  queries the storage strategy once, with the end of the range \<open>eff\<close>: when
  \<open>1000 * (microsecond div 1000 + 1)\<close> is at most 999999, \<open>eff\<close> is \<open>endtime\<close> with that
  value as its microsecond; otherwise \<open>eff\<close> has microsecond 0 and is one whole second
  after the second of \<open>endtime\<close>. In both cases \<open>eff\<close> is the first millisecond
  boundary strictly after \<open>endtime\<close>.
\<close>

theorem endtime_rounded_up:
  assumes "valid_datetime endtime"
    and "microsecond endtime < 999000 \<or> to_seconds endtime < MAXORDINAL * 86400 + 86399"
    and "\<forall>t. starttime = Some t \<longrightarrow> valid_datetime t"
  shows "\<exists>starttime' eff.
          round_starttime starttime = Inr starttime' \<and>
          Bucket_get st ds b limit starttime (Some endtime) =
            (Inr (st_get_events st (storage ds) (bucket_id b) limit starttime' (Some eff)),
             [Call (Get_events (bucket_id b) limit starttime' (Some eff))]) \<and>
          valid_datetime eff \<and>
          (if 1000 * (microsecond endtime div 1000 + 1) > 999999
           then microsecond eff = 0 \<and> to_seconds eff = to_seconds endtime + 1
           else eff = endtime\<lparr>microsecond := 1000 * (microsecond endtime div 1000 + 1)\<rparr>) \<and>
          to_microseconds eff = 1000 * (to_microseconds endtime div 1000 + 1) \<and>
          to_microseconds eff mod 1000 = 0 \<and>
          to_microseconds endtime < to_microseconds eff \<and>
          to_microseconds eff \<le> to_microseconds endtime + 1000"
proof -
  have "\<exists>starttime'. round_starttime starttime = Inr starttime'"
  proof (cases starttime)
    case None
    then show ?thesis by (simp add: round_starttime_def)
  next
    case (Some t)
    with assms(3) have "valid_datetime t" by simp
    then have "round_starttime (Some t) =
        Inr (Some (t\<lparr>microsecond := 1000 * (microsecond t div 1000)\<rparr>))"
      by (rule round_starttime_ok(1))
    with Some show ?thesis by simp
  qed
  then obtain starttime' where st': "round_starttime starttime = Inr starttime'" ..
  from round_endtime_ok [OF assms(1,2)] obtain eff where
    eff: "round_endtime (Some endtime) = Inr (Some eff)" "valid_datetime eff"
      "if 1000 * (microsecond endtime div 1000 + 1) > 999999
       then microsecond eff = 0 \<and> to_seconds eff = to_seconds endtime + 1
       else eff = endtime\<lparr>microsecond := 1000 * (microsecond endtime div 1000 + 1)\<rparr>"
    by blast
  have get: "Bucket_get st ds b limit starttime (Some endtime) =
            (Inr (st_get_events st (storage ds) (bucket_id b) limit starttime' (Some eff)),
             [Call (Get_events (bucket_id b) limit starttime' (Some eff))])"
    using st' eff(1) by (rule Bucket_get_rounded)
  have m: "microsecond endtime < 1000000"
    using assms(1) by (simp add: valid_datetime_def)
  have A: "to_microseconds eff =
      to_seconds endtime * 1000000 + 1000 * (microsecond endtime div 1000 + 1)"
  proof (cases "1000 * (microsecond endtime div 1000 + 1) > 999999")
    case True
    with m have "1000 * (microsecond endtime div 1000 + 1) = 1000000" by (rule ms_carry_eq)
    moreover from True eff(3) have "microsecond eff = 0 \<and> to_seconds eff = to_seconds endtime + 1"
      by simp
    ultimately show ?thesis by (simp add: to_microseconds_def)
  next
    case False
    with eff(3) have "eff = endtime\<lparr>microsecond := 1000 * (microsecond endtime div 1000 + 1)\<rparr>"
      by simp
    then show ?thesis by (simp add: to_microseconds_def to_seconds_def)
  qed
  have B: "1000 * (to_microseconds endtime div 1000 + 1) =
      to_seconds endtime * 1000000 + 1000 * (microsecond endtime div 1000 + 1)"
    unfolding to_microseconds_def by (rule next_millisecond [OF m])
  have us: "to_microseconds eff = 1000 * (to_microseconds endtime div 1000 + 1)"
    by (rule trans [OF A B [symmetric]])
  have c1: "to_microseconds eff mod 1000 = 0"
    unfolding us by simp
  have c2: "to_microseconds endtime < to_microseconds eff"
    unfolding us by (rule ms_up_gt)
  have c3: "to_microseconds eff \<le> to_microseconds endtime + 1000"
    unfolding us by (rule ms_up_le)
  show ?thesis
    by (rule exI [of _ starttime'], rule exI [of _ eff])
      (intro conjI st' get eff(2) eff(3) us c1 c2 c3)
qed



text \<open>
  C1 at 2020-01-01 23:59:59.999500: the end of the range becomes 2020-01-02 00:00:00.
\<close>

theorem endtime_rounded_up_witness:
  "(\<exists>eff. Bucket_get memory_storage demo_ds demo_bucket (- 1) None (Some t_late) =
            (Inr (st_get_events memory_storage (storage demo_ds) (bucket_id demo_bucket) (- 1)
                    None (Some eff)),
             [Call (Get_events (bucket_id demo_bucket) (- 1) None (Some eff))]) \<and>
          microsecond eff = 0 \<and> to_seconds eff = to_seconds t_late + 1 \<and>
          to_microseconds t_late < to_microseconds eff \<and>
          to_microseconds eff \<le> to_microseconds t_late + 1000) \<and>
   Bucket_get memory_storage demo_ds demo_bucket (- 1) None (Some t_late) =
     (Inr [ev_noon, ev_morning],
      [Call (Get_events ''a'' (- 1) None
         (Some \<lparr>ordinal = 737426, hour = 0, minute = 0, second = 0, microsecond = 0\<rparr>))])"
proof -
  have v: "valid_datetime t_late"
    by (simp add: t_late_def valid_datetime_def MAXORDINAL_def)
  have r: "microsecond t_late < 999000 \<or> to_seconds t_late < MAXORDINAL * 86400 + 86399"
    by (simp add: t_late_def to_seconds_def MAXORDINAL_def)
  have s: "\<forall>t. None = Some t \<longrightarrow> valid_datetime t"
    by simp
  have none: "\<And>x. round_starttime None = Inr x \<Longrightarrow> x = None"
    by (simp add: round_starttime_def)
  have big: "1000 * (microsecond t_late div 1000 + 1) > 999999"
    by (simp add: t_late_def)
  from endtime_rounded_up [OF v r s, of memory_storage demo_ds demo_bucket "- 1"]
  obtain starttime' eff where
    e0: "round_starttime None = Inr starttime'" and
    e1': "Bucket_get memory_storage demo_ds demo_bucket (- 1) None (Some t_late) =
            (Inr (st_get_events memory_storage (storage demo_ds) (bucket_id demo_bucket) (- 1)
                    starttime' (Some eff)),
             [Call (Get_events (bucket_id demo_bucket) (- 1) starttime' (Some eff))])"
    and e2: "if 1000 * (microsecond t_late div 1000 + 1) > 999999
       then microsecond eff = 0 \<and> to_seconds eff = to_seconds t_late + 1
       else eff = t_late\<lparr>microsecond := 1000 * (microsecond t_late div 1000 + 1)\<rparr>"
    and e3: "to_microseconds t_late < to_microseconds eff"
    and e4: "to_microseconds eff \<le> to_microseconds t_late + 1000"
    by blast
  from e1' none [OF e0]
  have e1: "Bucket_get memory_storage demo_ds demo_bucket (- 1) None (Some t_late) =
            (Inr (st_get_events memory_storage (storage demo_ds) (bucket_id demo_bucket) (- 1)
                    None (Some eff)),
             [Call (Get_events (bucket_id demo_bucket) (- 1) None (Some eff))])"
    by simp
  from e2 big have e5: "microsecond eff = 0 \<and> to_seconds eff = to_seconds t_late + 1"
    by (simp only: if_True)
  have "\<exists>eff. Bucket_get memory_storage demo_ds demo_bucket (- 1) None (Some t_late) =
            (Inr (st_get_events memory_storage (storage demo_ds) (bucket_id demo_bucket) (- 1)
                    None (Some eff)),
             [Call (Get_events (bucket_id demo_bucket) (- 1) None (Some eff))]) \<and>
          microsecond eff = 0 \<and> to_seconds eff = to_seconds t_late + 1 \<and>
          to_microseconds t_late < to_microseconds eff \<and>
          to_microseconds eff \<le> to_microseconds t_late + 1000"
    by (rule exI [of _ eff]) (intro conjI e1 e5 [THEN conjunct1] e5 [THEN conjunct2] e3 e4)
  moreover have "Bucket_get memory_storage demo_ds demo_bucket (- 1) None (Some t_late) =
     (Inr [ev_noon, ev_morning],
      [Call (Get_events ''a'' (- 1) None
         (Some \<lparr>ordinal = 737426, hour = 0, minute = 0, second = 0, microsecond = 0\<rparr>))])"
    by (simp add: Bucket_get_def round_starttime_def round_endtime_def replace_microsecond_def
        add_seconds_def MAXORDINAL_def t_late_def
        demo_ds_def demo_bucket_def ev_noon_def ev_morning_def t_noon_ms_def t_morning_def
        memory_storage_def mem_get_events_def within_window_def dt_key_def)
  ultimately show ?thesis by (rule conjI)
qed

text \<open>
  C1 does not hold for every endtime: at 9999-12-31 23:59:59.999500 the next second is
  past the last datetime, \<open>+ timedelta(seconds=1)\<close> raises \<open>OverflowError\<close>, and the
  storage strategy is never queried.
\<close>

theorem endtime_last_second_overflows:
  "valid_datetime t_last \<and>
   Bucket_get memory_storage demo_ds demo_bucket (- 1) None (Some t_last) =
     (Inl OverflowError, [])"
  by (simp add: Bucket_get_def round_starttime_def round_endtime_def replace_microsecond_def
      add_seconds_def MAXORDINAL_def valid_datetime_def t_last_def)


text \<open>
  Claim C2. For a valid \<open>starttime\<close>, the start of the range that \<open>Bucket.get\<close> passes
  to the storage strategy is \<open>eff\<close>, which is \<open>starttime\<close> with its microsecond cut down
  to a whole millisecond: the call either queries the storage strategy once, with
  \<open>eff\<close>, or raises in the rounding of the end of the range (see C1) and queries
  nothing. \<open>eff\<close> is the millisecond \<open>starttime\<close> lies in and is not after \<open>starttime\<close>;
  every instant in a range that starts at \<open>starttime\<close> is in the range that starts at
  \<open>eff\<close>; and \<open>eff\<close> itself is in that range unless the end of the range excludes it.
\<close>

theorem starttime_truncated:
  assumes "valid_datetime starttime"
  shows "\<exists>eff. eff = starttime\<lparr>microsecond := 1000 * (microsecond starttime div 1000)\<rparr> \<and>
          valid_datetime eff \<and>
          (case round_endtime endtime of
             Inl err \<Rightarrow> Bucket_get st ds b limit (Some starttime) endtime = (Inl err, [])
           | Inr endtime' \<Rightarrow>
               Bucket_get st ds b limit (Some starttime) endtime =
                 (Inr (st_get_events st (storage ds) (bucket_id b) limit (Some eff) endtime'),
                  [Call (Get_events (bucket_id b) limit (Some eff) endtime')])) \<and>
          to_microseconds eff = 1000 * (to_microseconds starttime div 1000) \<and>
          dt_key eff \<le> dt_key starttime \<and>
          (\<forall>endtime' t.
             within_window (Some starttime) endtime' t \<longrightarrow> within_window (Some eff) endtime' t) \<and>
          (\<forall>endtime'. within_window None endtime' eff \<longrightarrow> within_window (Some eff) endtime' eff)"
proof -
  define eff where "eff = starttime\<lparr>microsecond := 1000 * (microsecond starttime div 1000)\<rparr>"
  have r: "round_starttime (Some starttime) = Inr (Some eff)" and v: "valid_datetime eff"
    using round_starttime_ok [OF assms(1)] by (simp_all add: eff_def)
  have get: "case round_endtime endtime of
             Inl err \<Rightarrow> Bucket_get st ds b limit (Some starttime) endtime = (Inl err, [])
           | Inr endtime' \<Rightarrow>
               Bucket_get st ds b limit (Some starttime) endtime =
                 (Inr (st_get_events st (storage ds) (bucket_id b) limit (Some eff) endtime'),
                  [Call (Get_events (bucket_id b) limit (Some eff) endtime')])"
    using r by (simp add: Bucket_get_def split: sum.splits)
  have us: "to_microseconds eff = 1000 * (to_microseconds starttime div 1000)"
  proof -
    have "to_seconds eff = to_seconds starttime"
      by (simp add: eff_def to_seconds_def)
    moreover have "microsecond eff = 1000 * (microsecond starttime div 1000)"
      by (simp add: eff_def)
    ultimately show ?thesis
      unfolding to_microseconds_def ms_div by simp
  qed
  have le: "dt_key eff \<le> dt_key starttime"
    by (simp add: eff_def dt_key_def)
  have widen: "\<forall>endtime' t.
      within_window (Some starttime) endtime' t \<longrightarrow> within_window (Some eff) endtime' t"
    using le by (auto simp: within_window_def intro: order_trans)
  have boundary: "\<forall>endtime'. within_window None endtime' eff \<longrightarrow> within_window (Some eff) endtime' eff"
    by (simp add: within_window_def)
  show ?thesis
    by (rule exI [of _ eff]) (intro conjI eff_def v get us le widen boundary)
qed

text \<open>
  C2 at 12:00:00.001234: the range starts at 12:00:00.001000, and the event of
  exactly that instant is returned.
\<close>

theorem starttime_truncated_witness:
  "Bucket_get memory_storage demo_ds demo_bucket (- 1) (Some t_noon) None =
     (Inr [ev_noon], [Call (Get_events ''a'' (- 1) (Some t_noon_ms) None)]) \<and>
   timestamp ev_noon = t_noon_ms \<and>
   to_microseconds t_noon_ms = 1000 * (to_microseconds t_noon div 1000) \<and>
   dt_key t_noon_ms \<le> dt_key t_noon \<and>
   within_window (Some t_noon_ms) None (timestamp ev_noon)"
proof -
  have v: "valid_datetime t_noon"
    by (simp add: t_noon_def valid_datetime_def MAXORDINAL_def)
  have r: "round_endtime None = Inr None"
    by (simp add: round_endtime_def)
  have eff: "t_noon\<lparr>microsecond := 1000 * (microsecond t_noon div 1000)\<rparr> = t_noon_ms"
    by (simp add: t_noon_def t_noon_ms_def)
  from starttime_truncated [OF v, where endtime = None and st = memory_storage
      and ds = demo_ds and b = demo_bucket and limit = "- 1"]
  have get: "Bucket_get memory_storage demo_ds demo_bucket (- 1) (Some t_noon) None =
      (Inr (st_get_events memory_storage (storage demo_ds) (bucket_id demo_bucket) (- 1)
              (Some t_noon_ms) None),
       [Call (Get_events (bucket_id demo_bucket) (- 1) (Some t_noon_ms) None)])"
    and us: "to_microseconds t_noon_ms = 1000 * (to_microseconds t_noon div 1000)"
    and le: "dt_key t_noon_ms \<le> dt_key t_noon"
    and inside: "\<forall>endtime'. within_window None endtime' t_noon_ms \<longrightarrow>
        within_window (Some t_noon_ms) endtime' t_noon_ms"
    unfolding eff r by auto
  have evs: "st_get_events memory_storage (storage demo_ds) (bucket_id demo_bucket) (- 1)
              (Some t_noon_ms) None = [ev_noon]"
    by (simp add: demo_ds_def demo_bucket_def ev_noon_def ev_morning_def t_noon_ms_def t_morning_def
        memory_storage_def mem_get_events_def within_window_def dt_key_def)
  have ts: "timestamp ev_noon = t_noon_ms"
    by (simp add: ev_noon_def)
  have "within_window None None t_noon_ms"
    by (simp add: within_window_def)
  with inside have "within_window (Some t_noon_ms) None (timestamp ev_noon)"
    unfolding ts by blast
  with get us le ts evs show ?thesis
    by (simp add: demo_bucket_def)
qed

section \<open>The limit of \<open>Bucket.get\<close>\<close>

text \<open>
  Claim C8. If the storage strategy honours the limit, then whenever \<open>Bucket.get\<close>
  returns events with a limit \<open>n \<ge> 0\<close> they are at most \<open>n\<close>; the limit reaches the
  storage strategy as it was given, in the one \<open>get_events\<close> call the facade makes; a
  negative limit returns all the events that match; and \<open>get(limit=-1)\<close>, with no time
  range, returns all matching events.
\<close>

theorem get_limit:
  assumes "honors_limit st matching"
  shows "(\<forall>evs tr. Bucket_get st ds b limit starttime endtime = (Inr evs, tr) \<and> 0 \<le> limit
            \<longrightarrow> length evs \<le> nat limit) \<and>
         (\<forall>starttime' endtime'.
            round_starttime starttime = Inr starttime' \<and> round_endtime endtime = Inr endtime' \<longrightarrow>
            Bucket_get st ds b limit starttime endtime =
              (Inr (st_get_events st (storage ds) (bucket_id b) limit starttime' endtime'),
               [Call (Get_events (bucket_id b) limit starttime' endtime')]) \<and>
            (limit < 0 \<longrightarrow>
               fst (Bucket_get st ds b limit starttime endtime) =
                 Inr (matching (storage ds) (bucket_id b) starttime' endtime'))) \<and>
         Bucket_get st ds b (- 1) None None =
           (Inr (matching (storage ds) (bucket_id b) None None),
            [Call (Get_events (bucket_id b) (- 1) None None)])"
proof -
  from assms have bound: "\<And>s bid n t1 t2. 0 \<le> n \<Longrightarrow> length (st_get_events st s bid n t1 t2) \<le> nat n"
    and unbounded: "\<And>s bid n t1 t2. n < 0 \<Longrightarrow> st_get_events st s bid n t1 t2 = matching s bid t1 t2"
    by (simp_all add: honors_limit_def)
  have a: "\<forall>evs tr. Bucket_get st ds b limit starttime endtime = (Inr evs, tr) \<and> 0 \<le> limit
            \<longrightarrow> length evs \<le> nat limit"
    by (auto simp: Bucket_get_def bound split: sum.splits)
  have b: "\<forall>starttime' endtime'.
            round_starttime starttime = Inr starttime' \<and> round_endtime endtime = Inr endtime' \<longrightarrow>
            Bucket_get st ds b limit starttime endtime =
              (Inr (st_get_events st (storage ds) (bucket_id b) limit starttime' endtime'),
               [Call (Get_events (bucket_id b) limit starttime' endtime')]) \<and>
            (limit < 0 \<longrightarrow>
               fst (Bucket_get st ds b limit starttime endtime) =
                 Inr (matching (storage ds) (bucket_id b) starttime' endtime'))"
    by (simp add: Bucket_get_rounded unbounded)
  have c: "Bucket_get st ds b (- 1) None None =
           (Inr (matching (storage ds) (bucket_id b) None None),
            [Call (Get_events (bucket_id b) (- 1) None None)])"
    by (simp add: Bucket_get_no_window unbounded)
  from a b c show ?thesis by (intro conjI)
qed

text \<open>C8 on the bucket of two events: limit 1 returns one event, limit -1 both.\<close>

theorem get_limit_witness:
  "Bucket_get memory_storage demo_ds demo_bucket 1 None None =
     (Inr [ev_noon], [Call (Get_events ''a'' 1 None None)]) \<and>
   length [ev_noon] \<le> nat 1 \<and>
   Bucket_get memory_storage demo_ds demo_bucket (- 1) None None =
     (Inr [ev_noon, ev_morning], [Call (Get_events ''a'' (- 1) None None)])"
proof -
  note inst = get_limit [OF memory_honors_limit, of demo_ds demo_bucket 1 None None]
  have one: "Bucket_get memory_storage demo_ds demo_bucket 1 None None =
     (Inr [ev_noon], [Call (Get_events ''a'' 1 None None)])"
    by (simp add: Bucket_get_no_window demo_ds_def demo_bucket_def ev_noon_def ev_morning_def t_noon_ms_def t_morning_def
        memory_storage_def mem_get_events_def within_window_def dt_key_def)
  from inst have "\<forall>evs tr. Bucket_get memory_storage demo_ds demo_bucket 1 None None = (Inr evs, tr) \<and>
      (0::int) \<le> 1 \<longrightarrow> length evs \<le> nat 1"
    by (rule conjunct1)
  with one have "length [ev_noon] \<le> nat 1"
    by simp
  moreover from inst have "Bucket_get memory_storage demo_ds demo_bucket (- 1) None None =
     (Inr [ev_noon, ev_morning], [Call (Get_events ''a'' (- 1) None None)])"
    by (simp add: demo_ds_def demo_bucket_def ev_noon_def ev_morning_def t_noon_ms_def t_morning_def
        memory_storage_def mem_get_events_def within_window_def dt_key_def)
  ultimately show ?thesis using one by simp
qed

section \<open>\<open>Bucket.insert\<close>: the argument\<close>

text \<open>
  Claim C5, as the code has it. With an argument that is neither an \<open>Event\<close> nor a
  \<open>list\<close>, \<open>Bucket.insert\<close> raises \<open>TypeError\<close>. The datastore, and with it the state of
  the storage strategy, is what it was, and the only call made on the storage
  strategy is the \<open>get_events\<close> of \<open>self.get(1)\<close>: neither \<open>insert_one\<close> nor \<open>insert_many\<close>
  is called. The same holds for a list whose first element that is not an \<open>Event\<close> is
  not a dict: the sort cannot read its \<open>timestamp\<close>.
\<close>

theorem insert_other_raises_TypeError:
  "Bucket_insert st ds b (Another x) =
     (Inl TypeError, ds, [Call (Get_events (bucket_id b) 1 None None)]) \<and>
   ((\<forall>kvs. y \<noteq> Not_event (PyDict kvs)) \<longrightarrow>
      Bucket_insert st ds b (A_list_with evs y rest) =
        (Inl TypeError, ds, [Call (Get_events (bucket_id b) 1 None None)]))"
proof (intro conjI impI)
  show "Bucket_insert st ds b (Another x) =
     (Inl TypeError, ds, [Call (Get_events (bucket_id b) 1 None None)])"
    by (simp add: Bucket_insert_def Bucket_get_no_window)
next
  assume "\<forall>kvs. y \<noteq> Not_event (PyDict kvs)"
  then have "oldest_item (list_items evs y rest) = Inl TypeError"
    by (simp add: oldest_item_def timestamps_first_nonevent)
  then show "Bucket_insert st ds b (A_list_with evs y rest) =
        (Inl TypeError, ds, [Call (Get_events (bucket_id b) 1 None None)])"
    by (simp add: Bucket_insert_def Bucket_get_no_window)
qed

text \<open>
  C5 for a tuple of events, which is a sequence and not a \<open>list\<close>, and for the list of
  an event and the number 5.
\<close>

theorem insert_other_witness:
  "Bucket_insert memory_storage demo_ds demo_bucket (Another (PyTuple [ev_morning])) =
     (Inl TypeError, demo_ds, [Call (Get_events ''a'' 1 None None)]) \<and>
   Bucket_insert memory_storage demo_ds demo_bucket
       (A_list_with [ev_morning] (Not_event (PyInt 5)) []) =
     (Inl TypeError, demo_ds, [Call (Get_events ''a'' 1 None None)])"
proof -
  note inst = insert_other_raises_TypeError [where st = memory_storage and ds = demo_ds
      and b = demo_bucket and x = "PyTuple [ev_morning]" and y = "Not_event (PyInt 5)"
      and evs = "[ev_morning]" and rest = "[]"]
  have notdict: "\<forall>kvs. Not_event (PyInt 5) \<noteq> Not_event (PyDict kvs)"
    by simp
  from inst [THEN conjunct1]
  have a: "Bucket_insert memory_storage demo_ds demo_bucket (Another (PyTuple [ev_morning])) =
     (Inl TypeError, demo_ds, [Call (Get_events ''a'' 1 None None)])"
    by (simp add: demo_bucket_def)
  from inst [THEN conjunct2] notdict
  have b: "Bucket_insert memory_storage demo_ds demo_bucket
       (A_list_with [ev_morning] (Not_event (PyInt 5)) []) =
     (Inl TypeError, demo_ds, [Call (Get_events ''a'' 1 None None)])"
    by (simp add: demo_bucket_def)
  from a b show ?thesis by (rule conjI)
qed

text \<open>
  C5 does not hold for every argument that is not a list of events. The list
  \<open>[{'timestamp': t}]\<close> is a \<open>list\<close>, and the dict has the key of the sort. On a bucket
  with no event, \<open>insert_many\<close> is called with it, the call returns and the storage has
  changed; on a bucket with events \<open>insert_many\<close> is called as well, and the
  \<open>AttributeError\<close> of line 102 follows it.
\<close>

theorem insert_list_of_dict_is_inserted:
  "map_option mb_events (storage blank_ds ''a'') = Some [] \<and>
   fst (Bucket_insert memory_storage blank_ds demo_bucket (A_list_with [] morning_dict [])) =
     Inr (Many_items [Item_nonevent morning_dict]) \<and>
   snd (snd (Bucket_insert memory_storage blank_ds demo_bucket (A_list_with [] morning_dict []))) =
     [Call (Get_events ''a'' 1 None None),
      Call (Insert_many_items ''a'' [Item_nonevent morning_dict])] \<and>
   map_option mb_events
     (storage (fst (snd (Bucket_insert memory_storage blank_ds demo_bucket
                           (A_list_with [] morning_dict [])))) ''a'') =
     Some [ev_morning] \<and>
   fst (Bucket_insert memory_storage demo_ds demo_bucket (A_list_with [] morning_dict [])) =
     Inl AttributeError \<and>
   snd (snd (Bucket_insert memory_storage demo_ds demo_bucket (A_list_with [] morning_dict []))) =
     [Call (Get_events ''a'' 1 None None),
      Call (Insert_many_items ''a'' [Item_nonevent morning_dict])]"
  by (simp add: Bucket_insert_def Bucket_get_no_window oldest_item_def list_items_def
      morning_dict_def blank_ds_def demo_ds_def demo_bucket_def ev_morning_def ev_noon_def
      t_noon_ms_def t_morning_def truthy_def
      memory_storage_def mem_get_events_def within_window_def dt_key_def
      mem_insert_many_items_def mem_insert_many_def)

text \<open>
  Claim C9. With an empty list, \<open>Bucket.insert\<close> calls \<open>insert_many\<close> with the empty list
  and returns its result; nothing is logged, whatever \<open>get(1)\<close> returned.
\<close>

theorem insert_empty_list:
  "Bucket_insert st ds b (A_list []) =
     (Inr (Many (fst (st_insert_many st (storage ds) (bucket_id b) []))),
      ds\<lparr>storage := snd (st_insert_many st (storage ds) (bucket_id b) [])\<rparr>,
      [Call (Get_events (bucket_id b) 1 None None), Call (Insert_many (bucket_id b) [])])"
  by (simp add: Bucket_insert_def Bucket_get_no_window older_warning_def
      split: prod.splits option.splits)


text \<open>C9 on a bucket that holds events.\<close>

theorem insert_empty_list_witness:
  "st_get_events memory_storage (storage demo_ds) ''a'' 1 None None = [ev_noon] \<and>
   Bucket_insert memory_storage demo_ds demo_bucket (A_list []) =
     (Inr (Many []), demo_ds,
      [Call (Get_events ''a'' 1 None None), Call (Insert_many ''a'' [])])"
  using insert_empty_list [of memory_storage demo_ds demo_bucket]
  by (simp add: demo_ds_def demo_bucket_def ev_noon_def ev_morning_def t_noon_ms_def t_morning_def
      memory_storage_def mem_get_events_def within_window_def dt_key_def mem_insert_many_def)


section \<open>\<open>Bucket.insert\<close>: the out-of-order warning\<close>

text \<open>
  Claim C4. Inserting one event \<open>e\<close> calls \<open>get_events\<close> with limit 1, then \<open>insert_one\<close>,
  and returns what \<open>insert_one\<close> returned; inserting a non-empty list calls
  \<open>insert_many\<close> with the list and returns what it returned. In both cases the warning
  follows the insert in the trace, and it is there exactly when \<open>get(limit=1)\<close> had
  returned an event and the oldest inserted event is strictly earlier than it: the
  event itself for one event, and for a list the earliest event, the first of the list
  among those of its timestamp. The insert is made in either case.
\<close>

theorem insert_warns_iff_older:
  "Bucket_insert st ds b (An_event e) =
     (Inr (One (fst (st_insert_one st (storage ds) (bucket_id b) e))),
      ds\<lparr>storage := snd (st_insert_one st (storage ds) (bucket_id b) e)\<rparr>,
      [Call (Get_events (bucket_id b) 1 None None), Call (Insert_one (bucket_id b) e)] @
      expected_warning (st_get_events st (storage ds) (bucket_id b) 1 None None) e) \<and>
   ((\<exists>l old. Log (Warning_older_timestamp l old) \<in>
        set (snd (snd (Bucket_insert st ds b (An_event e))))) \<longleftrightarrow>
    st_get_events st (storage ds) (bucket_id b) 1 None None \<noteq> [] \<and>
    dt_key (timestamp e) <
      dt_key (timestamp (hd (st_get_events st (storage ds) (bucket_id b) 1 None None)))) \<and>
   (es \<noteq> [] \<longrightarrow>
      (\<exists>oldest. earliest_stable es oldest \<and>
         Bucket_insert st ds b (A_list es) =
           (Inr (Many (fst (st_insert_many st (storage ds) (bucket_id b) es))),
            ds\<lparr>storage := snd (st_insert_many st (storage ds) (bucket_id b) es)\<rparr>,
            [Call (Get_events (bucket_id b) 1 None None), Call (Insert_many (bucket_id b) es)] @
            expected_warning (st_get_events st (storage ds) (bucket_id b) 1 None None) oldest) \<and>
         ((\<exists>l old. Log (Warning_older_timestamp l old) \<in>
              set (snd (snd (Bucket_insert st ds b (A_list es))))) \<longleftrightarrow>
          st_get_events st (storage ds) (bucket_id b) 1 None None \<noteq> [] \<and>
          dt_key (timestamp oldest) <
            dt_key (timestamp (hd (st_get_events st (storage ds) (bucket_id b) 1 None None))))))"
proof (intro conjI impI)
  show "Bucket_insert st ds b (An_event e) =
     (Inr (One (fst (st_insert_one st (storage ds) (bucket_id b) e))),
      ds\<lparr>storage := snd (st_insert_one st (storage ds) (bucket_id b) e)\<rparr>,
      [Call (Get_events (bucket_id b) 1 None None), Call (Insert_one (bucket_id b) e)] @
      expected_warning (st_get_events st (storage ds) (bucket_id b) 1 None None) e)"
    by (rule insert_event_eq)
  show "(\<exists>l old. Log (Warning_older_timestamp l old) \<in>
        set (snd (snd (Bucket_insert st ds b (An_event e))))) \<longleftrightarrow>
    st_get_events st (storage ds) (bucket_id b) 1 None None \<noteq> [] \<and>
    dt_key (timestamp e) <
      dt_key (timestamp (hd (st_get_events st (storage ds) (bucket_id b) 1 None None)))"
    unfolding insert_event_eq snd_conv expected_warning_iff by simp
next
  assume ne: "es \<noteq> []"
  let ?oldest = "hd (sort_key (\<lambda>k. dt_key (timestamp k)) es)"
  have "earliest_stable es ?oldest"
    using ne by (rule hd_sort_key_earliest_stable)
  moreover note insert_list_eq [OF ne, of st ds b]
  moreover have "(\<exists>l old. Log (Warning_older_timestamp l old) \<in>
              set (snd (snd (Bucket_insert st ds b (A_list es))))) \<longleftrightarrow>
          st_get_events st (storage ds) (bucket_id b) 1 None None \<noteq> [] \<and>
          dt_key (timestamp ?oldest) <
            dt_key (timestamp (hd (st_get_events st (storage ds) (bucket_id b) 1 None None)))"
    unfolding insert_list_eq [OF ne] snd_conv expected_warning_iff by simp
  ultimately show "\<exists>oldest. earliest_stable es oldest \<and>
         Bucket_insert st ds b (A_list es) =
           (Inr (Many (fst (st_insert_many st (storage ds) (bucket_id b) es))),
            ds\<lparr>storage := snd (st_insert_many st (storage ds) (bucket_id b) es)\<rparr>,
            [Call (Get_events (bucket_id b) 1 None None), Call (Insert_many (bucket_id b) es)] @
            expected_warning (st_get_events st (storage ds) (bucket_id b) 1 None None) oldest) \<and>
         ((\<exists>l old. Log (Warning_older_timestamp l old) \<in>
              set (snd (snd (Bucket_insert st ds b (A_list es))))) \<longleftrightarrow>
          st_get_events st (storage ds) (bucket_id b) 1 None None \<noteq> [] \<and>
          dt_key (timestamp oldest) <
            dt_key (timestamp (hd (st_get_events st (storage ds) (bucket_id b) 1 None None))))"
    by (intro exI conjI)
qed

text \<open>
  C4 on the bucket whose last event is of 12:00:00.001000: an event of 06:00 is inserted
  and warned about, an event of 18:00 is inserted without a warning, and of a list with
  two events of 06:00 the first is the one the warning names.
\<close>

theorem insert_warns_iff_older_witness:
  "Bucket_insert memory_storage demo_ds demo_bucket (An_event ev_dawn) =
     (Inr (One ev_dawn),
      demo_ds\<lparr>storage := snd (mem_insert_one (storage demo_ds) ''a'' ev_dawn)\<rparr>,
      [Call (Get_events ''a'' 1 None None), Call (Insert_one ''a'' ev_dawn),
       Log (Warning_older_timestamp ev_noon ev_dawn)]) \<and>
   mb_events (the (snd (mem_insert_one (storage demo_ds) ''a'' ev_dawn) ''a'')) =
     [ev_noon, ev_morning, ev_dawn] \<and>
   snd (snd (Bucket_insert memory_storage demo_ds demo_bucket (An_event ev_evening))) =
     [Call (Get_events ''a'' 1 None None), Call (Insert_one ''a'' ev_evening)] \<and>
   earliest_stable [ev_evening, ev_dawn, ev_dawn_again] ev_dawn \<and>
   snd (snd (Bucket_insert memory_storage demo_ds demo_bucket
               (A_list [ev_evening, ev_dawn, ev_dawn_again]))) =
     [Call (Get_events ''a'' 1 None None),
      Call (Insert_many ''a'' [ev_evening, ev_dawn, ev_dawn_again]),
      Log (Warning_older_timestamp ev_noon ev_dawn)]"
proof -
  have last: "st_get_events memory_storage (storage demo_ds) (bucket_id demo_bucket) 1 None None =
      [ev_noon]"
    by (simp add: demo_ds_def demo_bucket_def ev_noon_def ev_morning_def t_noon_ms_def t_morning_def
        memory_storage_def mem_get_events_def within_window_def dt_key_def)
  have a: "Bucket_insert memory_storage demo_ds demo_bucket (An_event ev_dawn) =
     (Inr (One ev_dawn),
      demo_ds\<lparr>storage := snd (mem_insert_one (storage demo_ds) ''a'' ev_dawn)\<rparr>,
      [Call (Get_events ''a'' 1 None None), Call (Insert_one ''a'' ev_dawn),
       Log (Warning_older_timestamp ev_noon ev_dawn)])"
    using insert_warns_iff_older [of memory_storage demo_ds demo_bucket ev_dawn "[]", THEN conjunct1]
    unfolding last
    by (simp add: expected_warning_def demo_ds_def demo_bucket_def ev_noon_def ev_morning_def t_noon_ms_def t_morning_def
        ev_dawn_def t_dawn_def memory_storage_def mem_get_events_def within_window_def dt_key_def mem_insert_one_def)
  have b: "mb_events (the (snd (mem_insert_one (storage demo_ds) ''a'' ev_dawn) ''a'')) =
     [ev_noon, ev_morning, ev_dawn]"
    by (simp add: demo_ds_def demo_bucket_def ev_noon_def ev_morning_def t_noon_ms_def t_morning_def
        ev_dawn_def t_dawn_def memory_storage_def mem_get_events_def within_window_def dt_key_def mem_insert_one_def)
  have c: "snd (snd (Bucket_insert memory_storage demo_ds demo_bucket (An_event ev_evening))) =
     [Call (Get_events ''a'' 1 None None), Call (Insert_one ''a'' ev_evening)]"
    using insert_warns_iff_older [of memory_storage demo_ds demo_bucket ev_evening "[]", THEN conjunct1]
    unfolding last
    by (simp add: expected_warning_def demo_ds_def demo_bucket_def ev_noon_def ev_morning_def t_noon_ms_def t_morning_def
        ev_evening_def t_evening_def memory_storage_def mem_get_events_def within_window_def dt_key_def mem_insert_one_def)
  have d: "earliest_stable [ev_evening, ev_dawn, ev_dawn_again] ev_dawn"
    by (simp add: earliest_stable_def ev_evening_def ev_dawn_def ev_dawn_again_def t_evening_def
        t_dawn_def dt_key_def)
  have e: "snd (snd (Bucket_insert memory_storage demo_ds demo_bucket
               (A_list [ev_evening, ev_dawn, ev_dawn_again]))) =
     [Call (Get_events ''a'' 1 None None),
      Call (Insert_many ''a'' [ev_evening, ev_dawn, ev_dawn_again]),
      Log (Warning_older_timestamp ev_noon ev_dawn)]"
    unfolding insert_list_eq [of "[ev_evening, ev_dawn, ev_dawn_again]", simplified] last
    by (simp add: expected_warning_def demo_ds_def demo_bucket_def ev_noon_def ev_morning_def t_noon_ms_def t_morning_def
        ev_evening_def ev_dawn_def ev_dawn_again_def t_evening_def t_dawn_def
        memory_storage_def mem_get_events_def within_window_def dt_key_def mem_insert_many_def)
  from a b c d e show ?thesis by (intro conjI)
qed

section \<open>Lookup and the cache of handles\<close>

text \<open>
  Claim C6. \<open>Datastore[bucket_id]\<close> returns the cached handle when there is one, with no
  call of the storage strategy; with none cached and the bucket in the listing it
  makes a handle, caches it and returns it; with none cached and the bucket not in
  the listing it logs an error and raises \<open>KeyError\<close>, leaving the datastore as it was.
  So a bucket that is not listed is not found (no handle is cached for it while the
  cache holds listed buckets only), and after a \<open>create_bucket\<close> whose storage call
  returned, on a storage strategy that lists what it creates, \<open>create_bucket\<close> returns a
  handle and the next lookup returns that handle.
\<close>

theorem lookup_cases:
  "(bucket_instances ds bid = Some h \<longrightarrow> Datastore_getitem st ds bid = (Inr h, ds, [])) \<and>
   (bucket_instances ds bid = None \<and> bid \<in> dom (st_buckets st (storage ds)) \<longrightarrow>
      Datastore_getitem st ds bid =
        (Inr \<lparr>ref = next_ref ds, bucket_id = bid\<rparr>,
         ds\<lparr>bucket_instances := (bucket_instances ds)(bid \<mapsto> \<lparr>ref = next_ref ds, bucket_id = bid\<rparr>),
            next_ref := Suc (next_ref ds)\<rparr>,
         [Call Buckets])) \<and>
   (bucket_instances ds bid = None \<and> bid \<notin> dom (st_buckets st (storage ds)) \<longrightarrow>
      Datastore_getitem st ds bid =
        (Inl KeyError, ds, [Call Buckets, Log (Error_cannot_create_bucket_object bid)])) \<and>
   (cache_listed st ds \<and> bid \<notin> dom (st_buckets st (storage ds)) \<longrightarrow>
      Datastore_getitem st ds bid =
        (Inl KeyError, ds, [Call Buckets, Log (Error_cannot_create_bucket_object bid)])) \<and>
   (lists_created st \<and>
    st_create_bucket st (storage ds) bid btype client hostname
      (Isoformat (case created of None \<Rightarrow> default_created m | Some c \<Rightarrow> c)) name = (None, s') \<longrightarrow>
      (\<exists>b ds' tr.
         Datastore_create_bucket m st ds bid btype client hostname created name = (Inr b, ds', tr) \<and>
         storage ds' = s' \<and>
         Datastore_getitem st ds' bid = (Inr b, ds', [])))"
proof (intro conjI impI)
  assume "bucket_instances ds bid = Some h"
  then show "Datastore_getitem st ds bid = (Inr h, ds, [])" by (rule getitem_cached)
next
  assume "bucket_instances ds bid = None \<and> bid \<in> dom (st_buckets st (storage ds))"
  then obtain md where "bucket_instances ds bid = None" and "st_buckets st (storage ds) bid = Some md"
    by auto
  then show "Datastore_getitem st ds bid =
        (Inr \<lparr>ref = next_ref ds, bucket_id = bid\<rparr>,
         ds\<lparr>bucket_instances := (bucket_instances ds)(bid \<mapsto> \<lparr>ref = next_ref ds, bucket_id = bid\<rparr>),
            next_ref := Suc (next_ref ds)\<rparr>,
         [Call Buckets])"
    by (rule getitem_listed)
next
  assume "bucket_instances ds bid = None \<and> bid \<notin> dom (st_buckets st (storage ds))"
  then have "bucket_instances ds bid = None" and "st_buckets st (storage ds) bid = None"
    by auto
  then show "Datastore_getitem st ds bid =
        (Inl KeyError, ds, [Call Buckets, Log (Error_cannot_create_bucket_object bid)])"
    by (rule getitem_absent)
next
  assume a: "cache_listed st ds \<and> bid \<notin> dom (st_buckets st (storage ds))"
  then have "bid \<notin> dom (bucket_instances ds)"
    by (auto simp: cache_listed_def)
  with a have "bucket_instances ds bid = None" and "st_buckets st (storage ds) bid = None"
    by auto
  then show "Datastore_getitem st ds bid =
        (Inl KeyError, ds, [Call Buckets, Log (Error_cannot_create_bucket_object bid)])"
    by (rule getitem_absent)
next
  let ?iso = "Isoformat (case created of None \<Rightarrow> default_created m | Some c \<Rightarrow> c)"
  assume a: "lists_created st \<and>
    st_create_bucket st (storage ds) bid btype client hostname ?iso name = (None, s')"
  then have "fst (st_create_bucket st (storage ds) bid btype client hostname ?iso name) = None \<longrightarrow>
      bid \<in> dom (st_buckets st (snd (st_create_bucket st (storage ds) bid btype client hostname ?iso name)))"
    unfolding lists_created_def by blast
  with a have "bid \<in> dom (st_buckets st s')" by simp
  then obtain md where "st_buckets st (storage (ds\<lparr>storage := s'\<rparr>)) bid = Some md"
    by auto
  then obtain b ds' tr where g: "Datastore_getitem st (ds\<lparr>storage := s'\<rparr>) bid = (Inr b, ds', tr)"
      and s: "storage ds' = storage (ds\<lparr>storage := s'\<rparr>)"
    using getitem_listed_returns by blast
  from a g have "Datastore_create_bucket m st ds bid btype client hostname created name =
      (Inr b, ds',
       [Log (Info_creating_bucket bid),
        Call (Create_bucket bid btype client hostname ?iso name)] @ tr)"
    by (simp add: create_bucket_returned)
  moreover from g have "bucket_instances ds' bid = Some b" by (rule getitem_returns_cached)
  then have "Datastore_getitem st ds' bid = (Inr b, ds', [])" by (rule getitem_cached)
  moreover from s have "storage ds' = s'" by simp
  ultimately show "\<exists>b ds' tr.
         Datastore_create_bucket m st ds bid btype client hostname created name = (Inr b, ds', tr) \<and>
         storage ds' = s' \<and>
         Datastore_getitem st ds' bid = (Inr b, ds', [])"
    by blast
qed

text \<open>
  C6 on an empty storage: the lookup of \<open>a\<close> raises \<open>KeyError\<close>; after
  \<open>create_bucket\<close> of \<open>a\<close> the lookup returns the handle \<open>create_bucket\<close> returned.
\<close>

theorem lookup_cases_witness:
  "Datastore_getitem memory_storage empty_ds ''a'' =
     (Inl KeyError, empty_ds, [Call Buckets, Log (Error_cannot_create_bucket_object ''a'')]) \<and>
   (\<exists>b ds' tr.
      Datastore_create_bucket (import_module t_morning) memory_storage empty_ds
        ''a'' ''t'' ''c'' ''h'' None None = (Inr b, ds', tr) \<and>
      Datastore_getitem memory_storage ds' ''a'' = (Inr b, ds', []))"
proof -
  note inst = lookup_cases [where st = memory_storage and ds = empty_ds and bid = "''a''"
      and m = "import_module t_morning" and btype = "''t''" and client = "''c''"
      and hostname = "''h''" and created = None and name = None
      and s' = "snd (mem_create_bucket Map.empty ''a'' ''t'' ''c'' ''h'' (Isoformat t_morning) None)"]
  have listed: "cache_listed memory_storage empty_ds"
    by (simp add: empty_ds_def init_cache_listed)
  have absent: "''a'' \<notin> dom (st_buckets memory_storage (storage empty_ds))"
    by (simp add: empty_ds_def Datastore_init_def memory_storage_def mem_buckets_def dom_def)
  have created: "st_create_bucket memory_storage (storage empty_ds) ''a'' ''t'' ''c'' ''h''
      (Isoformat (case None of None \<Rightarrow> default_created (import_module t_morning) | Some c \<Rightarrow> c)) None =
      (None, snd (mem_create_bucket Map.empty ''a'' ''t'' ''c'' ''h'' (Isoformat t_morning) None))"
    by (simp add: empty_ds_def Datastore_init_def memory_storage_def mem_create_bucket_def
        import_module_def)
  from inst [THEN conjunct2, THEN conjunct2, THEN conjunct2, THEN conjunct1] listed absent
  have "Datastore_getitem memory_storage empty_ds ''a'' =
     (Inl KeyError, empty_ds, [Call Buckets, Log (Error_cannot_create_bucket_object ''a'')])"
    by simp
  moreover
  from inst [THEN conjunct2, THEN conjunct2, THEN conjunct2, THEN conjunct2]
    memory_lists_created created
  have "\<exists>b ds' tr.
      Datastore_create_bucket (import_module t_morning) memory_storage empty_ds
        ''a'' ''t'' ''c'' ''h'' None None = (Inr b, ds', tr) \<and>
      storage ds' = snd (mem_create_bucket Map.empty ''a'' ''t'' ''c'' ''h'' (Isoformat t_morning) None) \<and>
      Datastore_getitem memory_storage ds' ''a'' = (Inr b, ds', [])"
    by simp
  then have "\<exists>b ds' tr.
      Datastore_create_bucket (import_module t_morning) memory_storage empty_ds
        ''a'' ''t'' ''c'' ''h'' None None = (Inr b, ds', tr) \<and>
      Datastore_getitem memory_storage ds' ''a'' = (Inr b, ds', [])"
    by blast
  ultimately show ?thesis by (rule conjI)
qed

text \<open>
  Claim C10. A lookup of a cached bucket returns the cached handle, changes nothing
  and calls nothing, and so does the lookup that follows it; and whenever a lookup
  returned a handle, cached before or not, the lookup that follows it returns the same
  handle and leaves the datastore as the first one left it.
\<close>

theorem lookup_cached_idempotent:
  "(bucket_instances ds bid = Some h \<longrightarrow> Datastore_getitem st ds bid = (Inr h, ds, [])) \<and>
   (bucket_instances ds bid = Some h \<longrightarrow>
      Datastore_getitem st (fst (snd (Datastore_getitem st ds bid))) bid = (Inr h, ds, [])) \<and>
   (Datastore_getitem st ds bid = (Inr h, ds1, tr) \<longrightarrow>
      Datastore_getitem st ds1 bid = (Inr h, ds1, []))"
proof (intro conjI impI)
  assume "bucket_instances ds bid = Some h"
  then show "Datastore_getitem st ds bid = (Inr h, ds, [])" by (rule getitem_cached)
next
  assume "bucket_instances ds bid = Some h"
  then show "Datastore_getitem st (fst (snd (Datastore_getitem st ds bid))) bid = (Inr h, ds, [])"
    by (simp add: getitem_cached)
next
  assume "Datastore_getitem st ds bid = (Inr h, ds1, tr)"
  then have "bucket_instances ds1 bid = Some h" by (rule getitem_returns_cached)
  then show "Datastore_getitem st ds1 bid = (Inr h, ds1, [])" by (rule getitem_cached)
qed

text \<open>
  C10: the lookup of the cached bucket \<open>a\<close>, and two lookups in a row on a datastore
  that had not cached it: the first makes the handle, the second returns it.
\<close>

theorem lookup_cached_idempotent_witness:
  "Datastore_getitem memory_storage demo_ds ''a'' = (Inr demo_bucket, demo_ds, []) \<and>
   Datastore_getitem memory_storage
     (fst (snd (Datastore_getitem memory_storage demo_ds ''a''))) ''a'' =
     (Inr demo_bucket, demo_ds, []) \<and>
   Datastore_getitem memory_storage (Datastore_init (storage demo_ds)) ''a'' =
     (Inr demo_bucket, demo_ds, [Call Buckets]) \<and>
   Datastore_getitem memory_storage
     (fst (snd (Datastore_getitem memory_storage (Datastore_init (storage demo_ds)) ''a''))) ''a'' =
     (Inr demo_bucket, demo_ds, [])"
proof -
  have cached: "bucket_instances demo_ds ''a'' = Some demo_bucket"
    by (simp add: demo_ds_def)
  have first: "Datastore_getitem memory_storage (Datastore_init (storage demo_ds)) ''a'' =
     (Inr demo_bucket, demo_ds, [Call Buckets])"
    by (simp add: Datastore_getitem_def Datastore_buckets_def Datastore_init_def Let_def
        demo_ds_def demo_bucket_def memory_storage_def mem_buckets_def)
  note cached_case = lookup_cached_idempotent
    [where ds = demo_ds and bid = "''a''" and h = demo_bucket and st = memory_storage]
  note fresh_case = lookup_cached_idempotent
    [where ds = "Datastore_init (storage demo_ds)" and bid = "''a''" and h = demo_bucket
       and st = memory_storage and ?ds1.0 = demo_ds and tr = "[Call Buckets]"]
  from cached_case [THEN conjunct1] cached
  have a: "Datastore_getitem memory_storage demo_ds ''a'' = (Inr demo_bucket, demo_ds, [])"
    by (rule mp)
  from cached_case [THEN conjunct2, THEN conjunct1] cached
  have b: "Datastore_getitem memory_storage
     (fst (snd (Datastore_getitem memory_storage demo_ds ''a''))) ''a'' =
     (Inr demo_bucket, demo_ds, [])"
    by (rule mp)
  from fresh_case [THEN conjunct2, THEN conjunct2] first
  have "Datastore_getitem memory_storage demo_ds ''a'' = (Inr demo_bucket, demo_ds, [])"
    by (rule mp)
  then have c: "Datastore_getitem memory_storage
     (fst (snd (Datastore_getitem memory_storage (Datastore_init (storage demo_ds)) ''a''))) ''a'' =
     (Inr demo_bucket, demo_ds, [])"
    unfolding first by simp
  from a b first c show ?thesis by (intro conjI)
qed

text \<open>
  Claim C7. On a storage strategy that takes no other bucket off its listing when one
  is created or deleted, the
  cache of a new \<open>Datastore\<close> holds listed buckets only, and so it does after any
  sequence of lookups, \<open>create_bucket\<close>, \<open>delete_bucket\<close> and \<open>buckets\<close>, whether the
  operations returned or raised. \<open>delete_bucket\<close> takes the handle of the bucket out of
  the cache (the cache stays as it is when there was none), calls \<open>delete_bucket\<close> on
  the storage strategy and returns or raises as that call did.
\<close>

theorem cache_invariant:
  assumes "keeps_listing st"
  shows "cache_listed st (Datastore_init s0) \<and>
         (cache_listed st ds \<longrightarrow> cache_listed st (run_ops m st ds ops)) \<and>
         cache_listed st (run_ops m st (Datastore_init s0) ops) \<and>
         Datastore_delete_bucket st ds bid =
           (case fst (st_delete_bucket st (storage ds) bid) of None \<Rightarrow> Inr () | Some e \<Rightarrow> Inl e,
            ds\<lparr>bucket_instances := (bucket_instances ds)(bid := None),
               storage := snd (st_delete_bucket st (storage ds) bid)\<rparr>,
            [Log (Info_deleting_bucket bid), Call (Delete_bucket bid)]) \<and>
         (bucket_instances ds bid = None \<longrightarrow>
            bucket_instances (fst (snd (Datastore_delete_bucket st ds bid))) = bucket_instances ds)"
proof (intro conjI impI)
  show "cache_listed st (Datastore_init s0)" by (rule init_cache_listed)
  show "cache_listed st (run_ops m st (Datastore_init s0) ops)"
    using assms init_cache_listed by (rule run_ops_cache_listed)
  show "Datastore_delete_bucket st ds bid =
           (case fst (st_delete_bucket st (storage ds) bid) of None \<Rightarrow> Inr () | Some e \<Rightarrow> Inl e,
            ds\<lparr>bucket_instances := (bucket_instances ds)(bid := None),
               storage := snd (st_delete_bucket st (storage ds) bid)\<rparr>,
            [Log (Info_deleting_bucket bid), Call (Delete_bucket bid)])"
    by (rule delete_bucket_eq)
next
  assume "cache_listed st ds"
  with assms show "cache_listed st (run_ops m st ds ops)" by (rule run_ops_cache_listed)
next
  assume "bucket_instances ds bid = None"
  then have "(bucket_instances ds)(bid := None) = bucket_instances ds" by auto
  then show "bucket_instances (fst (snd (Datastore_delete_bucket st ds bid))) = bucket_instances ds"
    by (simp add: delete_bucket_eq)
qed

text \<open>
  C7 on the storage in memory: a run that creates, looks up, deletes and looks up
  again, and the \<open>delete_bucket\<close> of the cached bucket \<open>a\<close>.
\<close>

theorem cache_invariant_witness:
  "cache_listed memory_storage
     (run_ops (import_module t_morning) memory_storage empty_ds
        [Create ''a'' ''t'' ''c'' ''h'' None None, Lookup ''a'', Delete ''a'', Lookup ''a'',
         List_buckets]) \<and>
   Datastore_delete_bucket memory_storage demo_ds ''a'' =
     (Inr (), \<lparr>bucket_instances = Map.empty, storage = Map.empty, next_ref = 1\<rparr>,
      [Log (Info_deleting_bucket ''a''), Call (Delete_bucket ''a'')])"
proof -
  note inst = cache_invariant [OF memory_keeps_listing,
      where ?s0.0 = Map.empty and m = "import_module t_morning" and ds = demo_ds and bid = "''a''"]
  from inst have "Datastore_delete_bucket memory_storage demo_ds ''a'' =
           (case fst (st_delete_bucket memory_storage (storage demo_ds) ''a'') of
              None \<Rightarrow> Inr () | Some e \<Rightarrow> Inl e,
            demo_ds\<lparr>bucket_instances := (bucket_instances demo_ds)(''a'' := None),
               storage := snd (st_delete_bucket memory_storage (storage demo_ds) ''a'')\<rparr>,
            [Log (Info_deleting_bucket ''a''), Call (Delete_bucket ''a'')])"
    by blast
  then have "Datastore_delete_bucket memory_storage demo_ds ''a'' =
     (Inr (), \<lparr>bucket_instances = Map.empty, storage = Map.empty, next_ref = 1\<rparr>,
      [Log (Info_deleting_bucket ''a''), Call (Delete_bucket ''a'')])"
    by (simp add: demo_ds_def memory_storage_def mem_delete_bucket_def)
  moreover from inst have "cache_listed memory_storage
     (run_ops (import_module t_morning) memory_storage empty_ds
        [Create ''a'' ''t'' ''c'' ''h'' None None, Lookup ''a'', Delete ''a'', Lookup ''a'',
         List_buckets])"
    unfolding empty_ds_def by blast
  ultimately show ?thesis by simp
qed

section \<open>The default of \<open>created\<close>\<close>

text \<open>
  Claim C3 says that a \<open>create_bucket\<close> without \<open>created\<close> records the time of the call.
  The code records the time of the import of the module, in every such call: here
  the module is imported at \<open>t0\<close> and the storage strategy is given \<open>t0\<close>; and two
  buckets created one after the other, at whatever times, both carry the time of the
  import. (The time of a call is no input of \<open>create_bucket\<close>: its body does not read
  the clock.)
\<close>

theorem created_default_is_import_time:
  "take 2 (snd (snd (Datastore_create_bucket (import_module t0) st ds bid btype client hostname
                       None name))) =
     [Log (Info_creating_bucket bid),
      Call (Create_bucket bid btype client hostname (Isoformat t0) name)] \<and>
   map_option md_created
     (st_buckets memory_storage
        (storage (run_ops (import_module t_morning) memory_storage empty_ds
                    [Create ''a'' ''t'' ''c'' ''h'' None None,
                     Create ''b'' ''t'' ''c'' ''h'' None None])) ''a'') =
     Some (Isoformat t_morning) \<and>
   map_option md_created
     (st_buckets memory_storage
        (storage (run_ops (import_module t_morning) memory_storage empty_ds
                    [Create ''a'' ''t'' ''c'' ''h'' None None,
                     Create ''b'' ''t'' ''c'' ''h'' None None])) ''b'') =
     Some (Isoformat t_morning)"
proof -
  have "take 2 (snd (snd (Datastore_create_bucket (import_module t0) st ds bid btype client hostname
                       None name))) =
     [Log (Info_creating_bucket bid),
      Call (Create_bucket bid btype client hostname (Isoformat t0) name)]"
    by (simp add: Datastore_create_bucket_def import_module_def Let_def
        split: prod.splits option.splits)
  moreover have run: "storage (run_ops (import_module t_morning) memory_storage empty_ds
                    [Create ''a'' ''t'' ''c'' ''h'' None None,
                     Create ''b'' ''t'' ''c'' ''h'' None None]) =
      [''a'' \<mapsto> \<lparr>mb_metadata = \<lparr>md_id = ''a'', md_type = ''t'', md_client = ''c'',
                               md_hostname = ''h'', md_created = Isoformat t_morning,
                               md_name = None\<rparr>, mb_events = []\<rparr>,
       ''b'' \<mapsto> \<lparr>mb_metadata = \<lparr>md_id = ''b'', md_type = ''t'', md_client = ''c'',
                               md_hostname = ''h'', md_created = Isoformat t_morning,
                               md_name = None\<rparr>, mb_events = []\<rparr>]"
    by (simp add: run_ops_def run_op_def Datastore_create_bucket_def Datastore_getitem_def
        Datastore_buckets_def Datastore_init_def empty_ds_def import_module_def Let_def
        memory_storage_def mem_buckets_def mem_create_bucket_def)
  ultimately show ?thesis
    unfolding run by (simp add: memory_storage_def mem_buckets_def)
qed

end
